theory Spec2Isabelle
  imports Main "HOL-Library.Word"
begin

unbundle bit_operations_syntax

section \<open>Machine integers and constants of the kernel headers\<close>

type_synonym u8 = "8 word"
type_synonym u16 = "16 word"
type_synonym u32 = "32 word"

text \<open>
  The connection states of \<^verbatim>\<open>include/net/tcp_states.h\<close>. \<^verbatim>\<open>sk_state\<close> is an unsigned
  char holding one of these codes; code 0 is the slot the source calls "(Invalid)".
\<close>

definition TCP_ESTABLISHED :: u8 where "TCP_ESTABLISHED = 1"
definition TCP_SYN_SENT :: u8 where "TCP_SYN_SENT = 2"
definition TCP_SYN_RECV :: u8 where "TCP_SYN_RECV = 3"
definition TCP_FIN_WAIT1 :: u8 where "TCP_FIN_WAIT1 = 4"
definition TCP_FIN_WAIT2 :: u8 where "TCP_FIN_WAIT2 = 5"
definition TCP_TIME_WAIT :: u8 where "TCP_TIME_WAIT = 6"
definition TCP_CLOSE :: u8 where "TCP_CLOSE = 7"
definition TCP_CLOSE_WAIT :: u8 where "TCP_CLOSE_WAIT = 8"
definition TCP_LAST_ACK :: u8 where "TCP_LAST_ACK = 9"
definition TCP_LISTEN :: u8 where "TCP_LISTEN = 10"
definition TCP_CLOSING :: u8 where "TCP_CLOSING = 11"
definition TCP_NEW_SYN_RECV :: u8 where "TCP_NEW_SYN_RECV = 12"

definition TCP_STATE_MASK :: u8 where "TCP_STATE_MASK = 0xF"
definition TCP_ACTION_FIN :: u8 where "TCP_ACTION_FIN = push_bit (unat TCP_CLOSE) 1"

lemmas tcp_state_codes =
  TCP_ESTABLISHED_def TCP_SYN_SENT_def TCP_SYN_RECV_def TCP_FIN_WAIT1_def
  TCP_FIN_WAIT2_def TCP_TIME_WAIT_def TCP_CLOSE_def TCP_CLOSE_WAIT_def
  TCP_LAST_ACK_def TCP_LISTEN_def TCP_CLOSING_def TCP_NEW_SYN_RECV_def

text \<open>The flag form \<^verbatim>\<open>TCPF_x = (1 << TCP_x)\<close>, computed in \<^verbatim>\<open>int\<close> width.\<close>

definition TCPF :: "u8 \<Rightarrow> u32" where
  "TCPF st = push_bit (unat st) 1"

definition EINVAL :: int where "EINVAL = 22"
definition EADDRNOTAVAIL :: int where "EADDRNOTAVAIL = 99"
definition ECONNRESET :: int where "ECONNRESET = 104"

section \<open>Segments and sockets\<close>

text \<open>
  \<^verbatim>\<open>struct nip_addr\<close>: a bit length and eight address bytes, read by the hashing code
  as two 32-bit fields.
\<close>

record nip_addr =
  bitlen :: u8
  nip_addr_field32_0 :: u32
  nip_addr_field32_1 :: u32

text \<open>
  \<^verbatim>\<open>struct sk_buff\<close>, restricted to what the modelled functions read: the packet type and
  length, the NewIP control block \<^verbatim>\<open>NIPCB(skb)\<close>, the bytes at the transport header, the
  fields of the TCP header \<^verbatim>\<open>th\<close>, and the TCP control block \<^verbatim>\<open>TCP_SKB_CB(skb)\<close>.
\<close>

record sk_buff =
  pkt_type :: u8
  len :: u32
  skb_iif :: int
  nipcb_nexthdr :: u8
  nipcb_srcaddr :: nip_addr
  nipcb_dstaddr :: nip_addr
  pkt_total_len :: u32
  transport_header :: "u8 list"
  th_source :: u16
  th_dest :: u16
  th_seq :: u32
  th_ack_seq :: u32
  th_doff :: u8
  th_fin :: bool
  th_syn :: bool
  th_rst :: bool
  th_ack :: bool
  cb_seq :: u32
  cb_end_seq :: u32
  cb_tcp_flags :: u8

text \<open>
  Calls that leave the modelled functions for the timer, output and listen code are
  recorded, in program order, in the field \<open>calls\<close> of the socket.
\<close>

datatype call =
    Reset_keepalive_timer u32
  | Prot_keepalive int
  | Send_fin
  | Send_active_reset
  | Listen_stop
  | Clear_xmit_timers
  | Error_report

text \<open>Where a socket's hash node is linked: a listening chain or an established chain.\<close>

datatype chain_id = Listening_chain nat | Ehash_chain nat

text \<open>
  The socket control block: the fields of \<^verbatim>\<open>struct sock\<close>, \<^verbatim>\<open>struct inet_sock\<close>,
  \<^verbatim>\<open>struct inet_connection_sock\<close> and \<^verbatim>\<open>struct tcp_sock\<close> that the modelled functions
  touch. \<open>sock_keepopen\<close> and \<open>sock_done\<close> are the flags \<^verbatim>\<open>SOCK_KEEPOPEN\<close> and
  \<^verbatim>\<open>SOCK_DONE\<close>; \<open>sk_prot_keepalive\<close> says whether the hook \<^verbatim>\<open>sk->sk_prot->keepalive\<close>
  is set; \<open>sk_nulls_node\<close> and \<open>icsk_listen_portaddr_node\<close> say where the two hash
  nodes are linked (\<open>None\<close>: unhashed).
\<close>

record sock =
  sk_state :: u8
  sk_shutdown :: u8
  sk_err :: int
  sock_keepopen :: bool
  sock_done :: bool
  sk_prot_keepalive :: bool
  sk_send_head :: "sk_buff option"
  sk_receive_queue :: "sk_buff list"
  sk_write_queue :: "sk_buff list"
  sk_net :: nat
  sk_bound_dev_if :: int
  sk_hash :: u32
  sk_nip_rcv_saddr :: nip_addr
  sk_nip_daddr :: nip_addr
  inet_num :: u16
  inet_sport :: u16
  inet_dport :: u16
  sk_nulls_node :: "chain_id option"
  icsk_listen_portaddr_node :: "nat option"
  snd_nxt :: u32
  write_seq :: u32
  max_window :: u32
  keepalive_time :: u32
  keepalive_intvl :: u32
  keepalive_probes :: u8
  keepalive_time_bak :: u32
  keepalive_probes_bak :: u8
  keepalive_intvl_bak :: u32
  nip_keepalive_enable :: bool
  nip_keepalive_out :: u32
  idle_ka_probes_out :: u32
  calls :: "call list"

text \<open>
  What the keepalive code takes from outside the file: the tick rate \<^verbatim>\<open>HZ\<close>, the
  tunables declared in \<^verbatim>\<open>tcp_nip_parameter.h\<close> (C \<^verbatim>\<open>int\<close>s, converted to unsigned where
  the code compares them with or stores them in unsigned fields), and the kernel's
  \<^verbatim>\<open>keepalive_time_elapsed\<close>, which reads the clock. They are parameters of the model.
\<close>

record nip_env =
  HZ :: u32
  g_nip_keepalive_time :: u32
  g_nip_keepalive_time_short_pkt :: u32
  g_nip_keepalive_intvl :: u32
  g_nip_idle_ka_probes_out :: u32
  keepalive_time_elapsed :: "sock \<Rightarrow> u32"

section \<open>Keepalive\<close>

definition tcp_nip_send_head :: "sock \<Rightarrow> sk_buff option" where
  "tcp_nip_send_head sk = sk_send_head sk"

definition inet_csk_reset_keepalive_timer :: "sock \<Rightarrow> u32 \<Rightarrow> sock" where
  "inet_csk_reset_keepalive_timer sk t = sk\<lparr>calls := calls sk @ [Reset_keepalive_timer t]\<rparr>"

definition prot_keepalive :: "sock \<Rightarrow> int \<Rightarrow> sock" where
  "prot_keepalive sk v = sk\<lparr>calls := calls sk @ [Prot_keepalive v]\<rparr>"

definition state_in :: "sock \<Rightarrow> u32 \<Rightarrow> bool" where
  "state_in sk flags \<longleftrightarrow> TCPF (sk_state sk) AND flags \<noteq> 0"

definition MAX_NIP_TCP_KEEPIDLE :: int where "MAX_NIP_TCP_KEEPIDLE = 32767"
definition MAX_NIP_TCP_KEEPINTVL :: int where "MAX_NIP_TCP_KEEPINTVL = 32767"
definition MAX_NIP_TCP_KEEPCNT :: int where "MAX_NIP_TCP_KEEPCNT = 255"

text \<open>
  \<^verbatim>\<open>tcp_nip_keepalive_para_update\<close>: each parameter is copied into the \<^verbatim>\<open>int val\<close>,
  checked, and stored before the next one is looked at. The result is the return code
  and the socket as the call leaves it.
\<close>

definition tcp_nip_keepalive_para_update ::
  "nip_env \<Rightarrow> sock \<Rightarrow> u32 \<Rightarrow> u32 \<Rightarrow> u8 \<Rightarrow> int \<times> sock" where
  "tcp_nip_keepalive_para_update e sk ka_time ka_intvl ka_probes =
    (let val = sint ka_time in
     if val < 1 \<or> val > MAX_NIP_TCP_KEEPIDLE then (- EINVAL, sk)
     else
       let sk1 = sk\<lparr>keepalive_time := word_of_int val\<rparr>;
           sk2 = (if sock_keepopen sk1 \<and> \<not> state_in sk1 (TCPF TCP_CLOSE OR TCPF TCP_LISTEN)
                  then
                    let elapsed = keepalive_time_elapsed e sk1;
                        elapsed = (if keepalive_time sk1 > elapsed
                                   then keepalive_time sk1 - elapsed else 0)
                    in inet_csk_reset_keepalive_timer sk1 elapsed
                  else sk1);
           val = sint ka_intvl
       in
       if val < 1 \<or> val > MAX_NIP_TCP_KEEPINTVL then (- EINVAL, sk2)
       else
         let sk3 = sk2\<lparr>keepalive_intvl := word_of_int val\<rparr>;
             val = uint ka_probes
         in
         if val < 1 \<or> val > MAX_NIP_TCP_KEEPCNT then (- EINVAL, sk3)
         else
           let sk4 = sk3\<lparr>keepalive_probes := word_of_int val\<rparr>;
               sk5 = (if sk_prot_keepalive sk4
                      then (prot_keepalive sk4 1)\<lparr>sock_keepopen := True\<rparr>
                      else sk4)
           in (0, sk5))"

definition NIP_PKT_TOTAL_LEN_BOUNDARY :: u32 where "NIP_PKT_TOTAL_LEN_BOUNDARY = 100000"
definition NIP_KEEPALIVE_PROBES :: u8 where "NIP_KEEPALIVE_PROBES = 255"

text \<open>
  The local \<^verbatim>\<open>nip_keepalive_time\<close> of \<^verbatim>\<open>tcp_nip_keepalive_enable\<close>, as a function of
  the segment at the send head: the idle time of the profile for short or long packets.
\<close>

definition idle_time_for :: "nip_env \<Rightarrow> sk_buff \<Rightarrow> u32" where
  "idle_time_for e skb =
     (if pkt_total_len skb < NIP_PKT_TOTAL_LEN_BOUNDARY
      then g_nip_keepalive_time_short_pkt e else g_nip_keepalive_time e)"

definition tcp_nip_keepalive_enable :: "nip_env \<Rightarrow> sock \<Rightarrow> sock" where
  "tcp_nip_keepalive_enable e sk =
    (case tcp_nip_send_head sk of
       None \<Rightarrow> sk
     | Some skb \<Rightarrow>
        let pkt_len = pkt_total_len skb;
            nip_keepalive_time =
              (if pkt_len < NIP_PKT_TOTAL_LEN_BOUNDARY
               then g_nip_keepalive_time_short_pkt e else g_nip_keepalive_time e)
        in
        if nip_keepalive_enable sk then
          (if keepalive_time sk > HZ e then
             inet_csk_reset_keepalive_timer
               (sk\<lparr>keepalive_time_bak := keepalive_time sk,
                   keepalive_probes_bak := keepalive_probes sk,
                   keepalive_intvl_bak := keepalive_intvl sk,
                   keepalive_time := nip_keepalive_time,
                   keepalive_probes := NIP_KEEPALIVE_PROBES,
                   keepalive_intvl := g_nip_keepalive_intvl e\<rparr>)
               nip_keepalive_time
           else sk)
        else
          let sk1 = (if sock_keepopen sk
                     then sk\<lparr>keepalive_time_bak := keepalive_time sk,
                             keepalive_probes_bak := keepalive_probes sk,
                             keepalive_intvl_bak := keepalive_intvl sk\<rparr>
                     else sk);
              (ret, sk2) = tcp_nip_keepalive_para_update e sk1 nip_keepalive_time
                             (g_nip_keepalive_intvl e) NIP_KEEPALIVE_PROBES
          in if ret \<noteq> 0 then sk2 else sk2\<lparr>nip_keepalive_enable := True\<rparr>)"

definition tcp_nip_keepalive_disable :: "nip_env \<Rightarrow> sock \<Rightarrow> sock" where
  "tcp_nip_keepalive_disable e sk =
    (if \<not> nip_keepalive_enable sk then sk
     else if \<not> sock_keepopen sk then sk\<lparr>nip_keepalive_enable := False\<rparr>
     else if idle_ka_probes_out sk < g_nip_idle_ka_probes_out e then sk
     else if keepalive_time_bak sk \<noteq> 0 then
       inet_csk_reset_keepalive_timer
         (sk\<lparr>keepalive_time := keepalive_time_bak sk,
             keepalive_probes := keepalive_probes_bak sk,
             keepalive_intvl := keepalive_intvl_bak sk\<rparr>)
         (keepalive_time_bak sk)
     else
       let sk1 = sk\<lparr>keepalive_time_bak := 0,
                     keepalive_probes_bak := 0,
                     keepalive_intvl_bak := 0\<rparr>;
           sk2 = (if sk_prot_keepalive sk1 then prot_keepalive sk1 0 else sk1);
           sk3 = sk2\<lparr>sock_keepopen := False\<rparr>
       in sk3\<lparr>nip_keepalive_enable := False\<rparr>)"

section \<open>Closing and disconnecting\<close>

text \<open>
  \<^verbatim>\<open>tcp_set_state\<close> belongs to the kernel's TCP code. The model keeps its store to
  \<^verbatim>\<open>sk_state\<close>; its statistics and its unhashing of a socket that reaches
  \<^verbatim>\<open>TCP_CLOSE\<close> act on data outside the socket and are left out.
\<close>

definition tcp_set_state :: "sock \<Rightarrow> u8 \<Rightarrow> sock" where
  "tcp_set_state sk st = sk\<lparr>sk_state := st\<rparr>"

definition tcp_nip_send_fin :: "sock \<Rightarrow> sock" where
  "tcp_nip_send_fin sk = sk\<lparr>calls := calls sk @ [Send_fin]\<rparr>"

definition tcp_nip_send_active_reset :: "sock \<Rightarrow> sock" where
  "tcp_nip_send_active_reset sk = sk\<lparr>calls := calls sk @ [Send_active_reset]\<rparr>"

definition inet_csk_listen_stop :: "sock \<Rightarrow> sock" where
  "inet_csk_listen_stop sk = sk\<lparr>calls := calls sk @ [Listen_stop]\<rparr>"

definition tcp_nip_clear_xmit_timers :: "sock \<Rightarrow> sock" where
  "tcp_nip_clear_xmit_timers sk = sk\<lparr>calls := calls sk @ [Clear_xmit_timers]\<rparr>"

text \<open>
  The table \<^verbatim>\<open>new_state[16]\<close>: sixteen slots, zero where the designated initialisers
  name none, each holding the next state in its low four bits and \<^verbatim>\<open>TCP_ACTION_FIN\<close>
  on top when a FIN is to be sent.
\<close>

definition new_state :: "u8 list" where
  "new_state = (replicate 16 0)
     [0 := TCP_CLOSE,
      unat TCP_ESTABLISHED := TCP_FIN_WAIT1 OR TCP_ACTION_FIN,
      unat TCP_SYN_SENT := TCP_CLOSE,
      unat TCP_SYN_RECV := TCP_FIN_WAIT1 OR TCP_ACTION_FIN,
      unat TCP_FIN_WAIT1 := TCP_FIN_WAIT1,
      unat TCP_FIN_WAIT2 := TCP_FIN_WAIT2,
      unat TCP_TIME_WAIT := TCP_CLOSE,
      unat TCP_CLOSE := TCP_CLOSE,
      unat TCP_CLOSE_WAIT := TCP_LAST_ACK OR TCP_ACTION_FIN,
      unat TCP_LAST_ACK := TCP_LAST_ACK,
      unat TCP_LISTEN := TCP_CLOSE,
      unat TCP_CLOSING := TCP_CLOSING,
      unat TCP_NEW_SYN_RECV := TCP_CLOSE]"

text \<open>
  \<^verbatim>\<open>tcp_nip_close_state\<close> returns the socket in its next state and the value
  \<^verbatim>\<open>next & TCP_ACTION_FIN\<close>, which the callers test against zero. A state code of 16
  or more would read past the table in C; the model says nothing about it.
\<close>

definition tcp_nip_close_state :: "sock \<Rightarrow> sock \<times> u8" where
  "tcp_nip_close_state sk =
    (let next = new_state ! unat (sk_state sk);
         ns = next AND TCP_STATE_MASK
     in (tcp_set_state sk ns, next AND TCP_ACTION_FIN))"

definition SHUTDOWN_MASK :: u8 where "SHUTDOWN_MASK = 3"
definition TCPHDR_FIN :: u8 where "TCPHDR_FIN = 0x01"

text \<open>
  The loop of \<^verbatim>\<open>tcp_nip_close\<close> that empties the receive queue and adds up the unread
  bytes of each segment (a FIN takes one sequence number and no byte).
\<close>

fun data_was_unread :: "sk_buff list \<Rightarrow> u32 \<Rightarrow> u32" where
  "data_was_unread [] acc = acc"
| "data_was_unread (skb # q) acc =
    (let l = cb_end_seq skb - cb_seq skb;
         l = (if cb_tcp_flags skb AND TCPHDR_FIN \<noteq> 0 then l - 1 else l)
     in data_was_unread q (acc + l))"

text \<open>
  \<^verbatim>\<open>tcp_nip_close\<close> up to the label \<^verbatim>\<open>adjudge_to_death\<close>, where the state change and
  the FIN or reset are decided. What follows the label orphans the socket and hands it to
  the kernel's release and destroy code.
\<close>

definition tcp_nip_close :: "sock \<Rightarrow> sock" where
  "tcp_nip_close sk0 =
    (let sk = sk0\<lparr>sk_shutdown := SHUTDOWN_MASK\<rparr> in
     if sk_state sk = TCP_LISTEN then
       inet_csk_listen_stop (tcp_set_state sk TCP_CLOSE)
     else
       let unread = data_was_unread (sk_receive_queue sk) 0;
           sk = sk\<lparr>sk_receive_queue := []\<rparr>
       in
       if sk_state sk = TCP_CLOSE then sk
       else if unread \<noteq> 0 then
         tcp_nip_send_active_reset (tcp_set_state sk TCP_CLOSE)
       else
         let (sk, fin) = tcp_nip_close_state sk
         in if fin \<noteq> 0 then tcp_nip_send_fin sk else sk)"

definition tcp_nip_need_reset :: "u8 \<Rightarrow> bool" where
  "tcp_nip_need_reset state \<longleftrightarrow>
     TCPF state AND
       (TCPF TCP_ESTABLISHED OR TCPF TCP_CLOSE_WAIT OR TCPF TCP_FIN_WAIT1 OR
        TCPF TCP_FIN_WAIT2 OR TCPF TCP_SYN_RECV) \<noteq> 0"

text \<open>\<^verbatim>\<open>tcp_nip_rtt_init\<close>, on the fields of the model.\<close>

definition tcp_nip_rtt_init :: "sock \<Rightarrow> sock" where
  "tcp_nip_rtt_init sk =
     sk\<lparr>nip_keepalive_enable := False,
        nip_keepalive_out := 0,
        idle_ka_probes_out := 0,
        keepalive_time := 0,
        keepalive_probes := 0,
        keepalive_intvl := 0,
        keepalive_time_bak := 0,
        keepalive_probes_bak := 0,
        keepalive_intvl_bak := 0\<rparr>"

text \<open>
  \<^verbatim>\<open>tcp_nip_disconnect\<close>. The decision to reset reads \<^verbatim>\<open>snd_nxt\<close> and \<^verbatim>\<open>write_seq\<close>
  before the function moves \<^verbatim>\<open>write_seq\<close> on. The resets of the congestion, option and
  route fields touch nothing the model holds. The function always returns 0.
\<close>

definition tcp_nip_disconnect :: "sock \<Rightarrow> int \<Rightarrow> int \<times> sock" where
  "tcp_nip_disconnect sk0 flags =
    (let err = 0;
         old_state = sk_state sk0;
         sk = (if old_state \<noteq> TCP_CLOSE then tcp_set_state sk0 TCP_CLOSE else sk0);
         sk = (if old_state = TCP_LISTEN then inet_csk_listen_stop sk
               else if tcp_nip_need_reset old_state \<or>
                       (snd_nxt sk \<noteq> write_seq sk \<and>
                        TCPF old_state AND (TCPF TCP_CLOSING OR TCPF TCP_LAST_ACK) \<noteq> 0)
               then (tcp_nip_send_active_reset sk)\<lparr>sk_err := ECONNRESET\<rparr>
               else if old_state = TCP_SYN_SENT then sk\<lparr>sk_err := ECONNRESET\<rparr>
               else sk);
         sk = tcp_nip_clear_xmit_timers sk;
         sk = sk\<lparr>sk_receive_queue := [], sk_write_queue := []\<rparr>;
         sk = tcp_nip_rtt_init sk;
         sk = sk\<lparr>inet_dport := 0, sk_shutdown := 0, sock_done := False\<rparr>;
         sk = sk\<lparr>write_seq := write_seq sk + (max_window sk + 2)\<rparr>;
         sk = (if write_seq sk = 0 then sk\<lparr>write_seq := 1\<rparr> else sk);
         sk = sk\<lparr>sk_send_head := None\<rparr>;
         sk = sk\<lparr>calls := calls sk @ [Error_report]\<rparr>
     in (err, sk))"

section \<open>Receiving a segment\<close>

text \<open>Byte order on a little-endian host.\<close>

definition htons :: "u16 \<Rightarrow> u16" where
  "htons x = push_bit 8 x OR drop_bit 8 x"

definition ntohl :: "u32 \<Rightarrow> u32" where
  "ntohl x = push_bit 24 (x AND 0xff) OR push_bit 8 (x AND 0xff00) OR
             drop_bit 8 (x AND 0xff0000) OR drop_bit 24 x"

record nip_pseudo_header =
  nph_nexthdr :: u8
  nph_saddr :: nip_addr
  nph_daddr :: nip_addr
  nph_check_len :: u16

text \<open>What \<^verbatim>\<open>tcp_nip_rcv\<close> does to the outside, in program order.\<close>

datatype rx_event =
    Lookup
  | Actual_send_reset u32 u32 u32 int
  | Kfree_skb
  | Deliver

text \<open>
  The collaborators of the receive path that live outside the file: the checksum routine
  \<^verbatim>\<open>nip_check_sum_parse\<close>, the connection lookup \<^verbatim>\<open>__ninet_lookup_skb\<close>, and the
  handling of a segment whose connection was found in a state other than time-wait
  (\<open>rcv_found\<close>: request sockets, listeners, direct delivery and the backlog).
\<close>

record rcv_env =
  nip_check_sum_parse :: "u8 list \<Rightarrow> u32 \<Rightarrow> nip_pseudo_header \<Rightarrow> u16"
  ninet_lookup_skb :: "sk_buff \<Rightarrow> u32 \<Rightarrow> u16 \<Rightarrow> u16 \<Rightarrow> int \<Rightarrow> sock option"
  rcv_found :: "sock \<Rightarrow> sk_buff \<Rightarrow> int \<times> rx_event list"

definition nip_get_tcp_input_checksum :: "rcv_env \<Rightarrow> sk_buff \<Rightarrow> bool" where
  "nip_get_tcp_input_checksum env skb =
    (let nph = \<lparr>nph_nexthdr = nipcb_nexthdr skb,
                 nph_saddr = nipcb_srcaddr skb,
                 nph_daddr = nipcb_dstaddr skb,
                 nph_check_len = htons (ucast (len skb))\<rparr>
     in nip_check_sum_parse env (transport_header skb) (len skb) nph = 0xffff)"

text \<open>
  \<^verbatim>\<open>tcp_nip_send_reset\<close>: the sequence numbers of the reset are computed from the
  offending segment and passed to \<^verbatim>\<open>tcp_nip_actual_send_reset\<close>, which builds and
  transmits it (outside the file; recorded as \<open>Actual_send_reset seq ack_seq win rst\<close>).
\<close>

definition tcp_nip_send_reset :: "sock option \<Rightarrow> sk_buff \<Rightarrow> rx_event list" where
  "tcp_nip_send_reset sk skb =
    (if th_rst skb then []
     else
       let seq = (if th_ack skb then ntohl (th_ack_seq skb) else 0);
           ack_seq = (if th_ack skb then 0
                      else ntohl (th_seq skb) + of_bool (th_syn skb) + of_bool (th_fin skb)
                           + len skb - push_bit 2 (ucast (th_doff skb)))
       in [Actual_send_reset seq ack_seq 0 1])"

definition PACKET_HOST :: u8 where "PACKET_HOST = 0"

definition tcp_nip_rcv :: "rcv_env \<Rightarrow> sk_buff \<Rightarrow> int \<times> rx_event list" where
  "tcp_nip_rcv env skb =
    (let dif = skb_iif skb;
         discard_it = (0, [Kfree_skb])
     in
     if pkt_type skb \<noteq> PACKET_HOST then discard_it
     else if \<not> nip_get_tcp_input_checksum env skb then discard_it
     else if th_doff skb < 5 then discard_it
     else
       case ninet_lookup_skb env skb (push_bit 2 (ucast (th_doff skb)))
              (th_source skb) (th_dest skb) dif of
         None \<Rightarrow> (0, Lookup # tcp_nip_send_reset None skb @ [Kfree_skb])
       | Some sk \<Rightarrow>
           if sk_state sk = TCP_TIME_WAIT then (0, [Lookup, Kfree_skb])
           else (let (ret, evs) = rcv_found env sk skb in (ret, Lookup # evs)))"

section \<open>The hash tables\<close>

text \<open>
  Sockets are referred to by address (a \<open>nat\<close>); a chain is the list of the addresses
  linked into it, head first. \<^verbatim>\<open>struct inet_hashinfo\<close> holds the established table,
  the listening table and the optional second listening table. Functions whose names
  start with underscores in the source are written without them.
\<close>

record inet_listen_hashbucket =
  ilb_count :: u32
  ilb_head :: "nat list"

record inet_hashinfo =
  ehash :: "nat \<Rightarrow> nat list"
  ehash_mask :: u32
  ehash_locks_mask :: u32
  listening_hash :: "nat \<Rightarrow> inet_listen_hashbucket"
  lhash2 :: "(nat \<Rightarrow> inet_listen_hashbucket) option"
  lhash2_mask :: u32

datatype lock_id = Listen_lock nat | Lhash2_lock nat | Ehash_lock nat

text \<open>
  What the table code does, in program order: taking and releasing a lock, reading an
  entry of a chain during a scan (\<open>Chain_read\<close>, with the entry's address), storing
  \<^verbatim>\<open>inet_num\<close>, \<^verbatim>\<open>inet_sport\<close> or \<^verbatim>\<open>sk_hash\<close> in a socket (with the socket's address
  and the value), linking a socket at the head of an established chain, and moving the
  in-use counter.
\<close>

datatype kevent =
    Spin_lock lock_id
  | Spin_unlock lock_id
  | Chain_read nat
  | Store_inet_num nat u16
  | Store_inet_sport nat u16
  | Store_sk_hash nat u32
  | Nulls_add_node nat nat
  | Prot_inuse_add int

record kstate =
  socks :: "nat \<Rightarrow> sock"
  hashinfo :: inet_hashinfo
  trace :: "kevent list"

text \<open>
  The hashing primitives and the match macro come from headers outside the file and are
  parameters: the Jenkins hashes, the per-namespace mix, the two secrets, the final mixing
  step \<^verbatim>\<open>__ninet_ehashfn\<close>, the listening hash of a socket, \<^verbatim>\<open>INET_COMBINED_PORTS\<close> and
  \<^verbatim>\<open>NINET_MATCH\<close>, which compares an entry with a namespace, the two addresses, the port
  pair and the device.
\<close>

record hash_env =
  jhash_1word :: "u32 \<Rightarrow> u32 \<Rightarrow> u32"
  jhash_3words :: "u32 \<Rightarrow> u32 \<Rightarrow> u32 \<Rightarrow> u32 \<Rightarrow> u32"
  net_hash_mix :: "nat \<Rightarrow> u32"
  ninet_ehash_secret :: u32
  ninet_hash_secret :: u32
  ninet_ehashfn_mix :: "u32 \<Rightarrow> u16 \<Rightarrow> u32 \<Rightarrow> u16 \<Rightarrow> u32 \<Rightarrow> u32"
  inet_sk_listen_hashfn :: "sock \<Rightarrow> nat"
  INET_COMBINED_PORTS :: "u16 \<Rightarrow> u16 \<Rightarrow> u32"
  NINET_MATCH :: "sock \<Rightarrow> nat \<Rightarrow> nip_addr \<Rightarrow> nip_addr \<Rightarrow> u32 \<Rightarrow> int \<Rightarrow> bool"

definition spin_lock :: "kstate \<Rightarrow> lock_id \<Rightarrow> kstate" where
  "spin_lock st l = st\<lparr>trace := trace st @ [Spin_lock l]\<rparr>"

definition spin_unlock :: "kstate \<Rightarrow> lock_id \<Rightarrow> kstate" where
  "spin_unlock st l = st\<lparr>trace := trace st @ [Spin_unlock l]\<rparr>"

definition sock_prot_inuse_add :: "kstate \<Rightarrow> int \<Rightarrow> kstate" where
  "sock_prot_inuse_add st v = st\<lparr>trace := trace st @ [Prot_inuse_add v]\<rparr>"

definition sk_unhashed :: "sock \<Rightarrow> bool" where
  "sk_unhashed sk \<longleftrightarrow> sk_nulls_node sk = None"

definition inet_ehash_bucket :: "inet_hashinfo \<Rightarrow> u32 \<Rightarrow> nat" where
  "inet_ehash_bucket h hash = unat (hash AND ehash_mask h)"

definition inet_ehash_lockp :: "inet_hashinfo \<Rightarrow> u32 \<Rightarrow> lock_id" where
  "inet_ehash_lockp h hash = Ehash_lock (unat (hash AND ehash_locks_mask h))"

definition nip_portaddr_hash :: "hash_env \<Rightarrow> nat \<Rightarrow> nip_addr \<Rightarrow> u32 \<Rightarrow> u32" where
  "nip_portaddr_hash env net saddr port =
    (let v = nip_addr_field32_0 saddr XOR nip_addr_field32_1 saddr
     in jhash_1word env v (net_hash_mix env net) XOR port)"

definition nip_addr_jhash :: "hash_env \<Rightarrow> nip_addr \<Rightarrow> u32 \<Rightarrow> u32" where
  "nip_addr_jhash env a initval =
    (let v = nip_addr_field32_0 a XOR nip_addr_field32_1 a
     in jhash_3words env v (nip_addr_field32_0 a) (nip_addr_field32_1 a) initval)"

definition ninet_lhash2_bucket_sk :: "hash_env \<Rightarrow> inet_hashinfo \<Rightarrow> sock \<Rightarrow> nat" where
  "ninet_lhash2_bucket_sk env h sk =
    (let hash = nip_portaddr_hash env (sk_net sk) (sk_nip_rcv_saddr sk) (ucast (inet_num sk))
     in unat (hash AND lhash2_mask h))"

definition ninet_ehashfn ::
  "hash_env \<Rightarrow> nat \<Rightarrow> nip_addr \<Rightarrow> u16 \<Rightarrow> nip_addr \<Rightarrow> u16 \<Rightarrow> u32" where
  "ninet_ehashfn env net laddr lport faddr fport =
    (let lhash = nip_addr_field32_0 laddr;
         fhash = nip_addr_jhash env faddr (ninet_hash_secret env)
     in ninet_ehashfn_mix env lhash lport fhash fport
          (ninet_ehash_secret env + net_hash_mix env net))"

text \<open>
  The list primitives of the kernel: unlinking a node takes it out of the chain it is
  linked into and marks it unhashed; adding one puts it at the head of the chain.
\<close>

definition bucket_del :: "(nat \<Rightarrow> inet_listen_hashbucket) \<Rightarrow> nat \<Rightarrow> nat \<Rightarrow>
    (nat \<Rightarrow> inet_listen_hashbucket)" where
  "bucket_del tab j sk = tab(j := (tab j)\<lparr>ilb_head := remove1 sk (ilb_head (tab j))\<rparr>)"

definition bucket_count_dec :: "(nat \<Rightarrow> inet_listen_hashbucket) \<Rightarrow> nat \<Rightarrow>
    (nat \<Rightarrow> inet_listen_hashbucket)" where
  "bucket_count_dec tab j = tab(j := (tab j)\<lparr>ilb_count := ilb_count (tab j) - 1\<rparr>)"

definition hlist_del_init_rcu :: "kstate \<Rightarrow> nat \<Rightarrow> kstate" where
  "hlist_del_init_rcu st sk =
    (case icsk_listen_portaddr_node (socks st sk) of
       None \<Rightarrow> st
     | Some j \<Rightarrow>
        st\<lparr>socks := (socks st)(sk := (socks st sk)\<lparr>icsk_listen_portaddr_node := None\<rparr>),
           hashinfo := (hashinfo st)\<lparr>lhash2 := map_option (\<lambda>tab. bucket_del tab j sk)
                                                   (lhash2 (hashinfo st))\<rparr>\<rparr>)"

definition sk_nulls_del_node_init_rcu :: "kstate \<Rightarrow> nat \<Rightarrow> kstate" where
  "sk_nulls_del_node_init_rcu st sk =
    (case sk_nulls_node (socks st sk) of
       None \<Rightarrow> st
     | Some (Ehash_chain j) \<Rightarrow>
        st\<lparr>socks := (socks st)(sk := (socks st sk)\<lparr>sk_nulls_node := None\<rparr>),
           hashinfo := (hashinfo st)\<lparr>ehash := (ehash (hashinfo st))
                          (j := remove1 sk (ehash (hashinfo st) j))\<rparr>\<rparr>
     | Some (Listening_chain j) \<Rightarrow>
        st\<lparr>socks := (socks st)(sk := (socks st sk)\<lparr>sk_nulls_node := None\<rparr>),
           hashinfo := (hashinfo st)\<lparr>listening_hash :=
                          bucket_del (listening_hash (hashinfo st)) j sk\<rparr>\<rparr>)"

definition sk_nulls_add_node_rcu :: "kstate \<Rightarrow> nat \<Rightarrow> nat \<Rightarrow> kstate" where
  "sk_nulls_add_node_rcu st sk slot =
     st\<lparr>socks := (socks st)(sk := (socks st sk)\<lparr>sk_nulls_node := Some (Ehash_chain slot)\<rparr>),
        hashinfo := (hashinfo st)\<lparr>ehash := (ehash (hashinfo st))
                       (slot := sk # ehash (hashinfo st) slot)\<rparr>,
        trace := trace st @ [Nulls_add_node sk slot]\<rparr>"

text \<open>\<^verbatim>\<open>ninet_unhash2\<close>: the removal from the second listening table.\<close>

definition ninet_unhash2 :: "hash_env \<Rightarrow> kstate \<Rightarrow> nat \<Rightarrow> kstate" where
  "ninet_unhash2 env st sk =
    (if lhash2 (hashinfo st) = None \<or> icsk_listen_portaddr_node (socks st sk) = None then st
     else
       let ilb2 = ninet_lhash2_bucket_sk env (hashinfo st) (socks st sk);
           st = spin_lock st (Lhash2_lock ilb2);
           st = hlist_del_init_rcu st sk;
           st = st\<lparr>hashinfo := (hashinfo st)\<lparr>lhash2 :=
                    map_option (\<lambda>tab. bucket_count_dec tab ilb2) (lhash2 (hashinfo st))\<rparr>\<rparr>
       in spin_unlock st (Lhash2_lock ilb2))"

text \<open>
  \<^verbatim>\<open>ninet_unhash\<close>: nothing for an unhashed socket; otherwise, under the lock of the
  listening bucket or of the established shard, the node is unlinked (for a listener, from
  both listening tables) and the in-use counter goes down by one.
\<close>

definition ninet_unhash :: "hash_env \<Rightarrow> kstate \<Rightarrow> nat \<Rightarrow> kstate" where
  "ninet_unhash env st0 sk =
    (if sk_unhashed (socks st0 sk) then st0
     else
       let ilb = (if sk_state (socks st0 sk) = TCP_LISTEN
                  then Some (inet_sk_listen_hashfn env (socks st0 sk)) else None);
           lock = (case ilb of
                     Some i \<Rightarrow> Listen_lock i
                   | None \<Rightarrow> inet_ehash_lockp (hashinfo st0) (sk_hash (socks st0 sk)));
           st = spin_lock st0 lock;
           st = (if sk_unhashed (socks st sk) then st
                 else
                   let st = (case ilb of
                               None \<Rightarrow> st
                             | Some i \<Rightarrow>
                                 let st = ninet_unhash2 env st sk
                                 in st\<lparr>hashinfo := (hashinfo st)\<lparr>listening_hash :=
                                      bucket_count_dec (listening_hash (hashinfo st)) i\<rparr>\<rparr>);
                       st = sk_nulls_del_node_init_rcu st sk
                   in sock_prot_inuse_add st (- 1))
       in spin_unlock st lock)"

text \<open>
  The scan of \<^verbatim>\<open>__ninet_check_established\<close> over the chain of the bucket
  (\<^verbatim>\<open>sk_nulls_for_each\<close>): each entry the loop comes to is read, and it counts when its
  stored hash equals the new hash and \<^verbatim>\<open>NINET_MATCH\<close> accepts it; the loop stops at the
  first entry that counts (\<^verbatim>\<open>goto not_unique\<close>). The result says whether it found one,
  with the state after the reads.
\<close>

definition chain_read :: "kstate \<Rightarrow> nat \<Rightarrow> kstate" where
  "chain_read st sk2 = st\<lparr>trace := trace st @ [Chain_read sk2]\<rparr>"

fun not_unique ::
  "hash_env \<Rightarrow> u32 \<Rightarrow> nat \<Rightarrow> nip_addr \<Rightarrow> nip_addr \<Rightarrow> u32 \<Rightarrow> int \<Rightarrow> nat list \<Rightarrow> kstate
     \<Rightarrow> bool \<times> kstate"
  where
  "not_unique env hash net saddr daddr ports dif [] st = (False, st)"
| "not_unique env hash net saddr daddr ports dif (sk2 # chain) st =
    (let st = chain_read st sk2 in
     if sk_hash (socks st sk2) \<noteq> hash
     then not_unique env hash net saddr daddr ports dif chain st
     else if NINET_MATCH env (socks st sk2) net saddr daddr ports dif then (True, st)
     else not_unique env hash net saddr daddr ports dif chain st)"

text \<open>The three stores that give the socket its identity before it is linked.\<close>

definition store_inet_num :: "kstate \<Rightarrow> nat \<Rightarrow> u16 \<Rightarrow> kstate" where
  "store_inet_num st sk v =
     st\<lparr>socks := (socks st)(sk := (socks st sk)\<lparr>inet_num := v\<rparr>),
        trace := trace st @ [Store_inet_num sk v]\<rparr>"

definition store_inet_sport :: "kstate \<Rightarrow> nat \<Rightarrow> u16 \<Rightarrow> kstate" where
  "store_inet_sport st sk v =
     st\<lparr>socks := (socks st)(sk := (socks st sk)\<lparr>inet_sport := v\<rparr>),
        trace := trace st @ [Store_inet_sport sk v]\<rparr>"

definition store_sk_hash :: "kstate \<Rightarrow> nat \<Rightarrow> u32 \<Rightarrow> kstate" where
  "store_sk_hash st sk v =
     st\<lparr>socks := (socks st)(sk := (socks st sk)\<lparr>sk_hash := v\<rparr>),
        trace := trace st @ [Store_sk_hash sk v]\<rparr>"

text \<open>
  \<^verbatim>\<open>__ninet_check_established\<close> (the time-wait argument \<^verbatim>\<open>twp\<close> is never used by the
  source). The result is the return code and the state the call leaves.
\<close>

definition ninet_check_established :: "hash_env \<Rightarrow> kstate \<Rightarrow> nat \<Rightarrow> u16 \<Rightarrow> int \<times> kstate" where
  "ninet_check_established env st0 sk lport =
    (let hinfo = hashinfo st0;
         daddr = sk_nip_rcv_saddr (socks st0 sk);
         saddr = sk_nip_daddr (socks st0 sk);
         dif = sk_bound_dev_if (socks st0 sk);
         net = sk_net (socks st0 sk);
         ports = INET_COMBINED_PORTS env (inet_dport (socks st0 sk)) lport;
         hash = ninet_ehashfn env net daddr lport saddr (inet_dport (socks st0 sk));
         head = inet_ehash_bucket hinfo hash;
         lock = inet_ehash_lockp hinfo hash;
         st = spin_lock st0 lock;
         (found, st) = not_unique env hash net saddr daddr ports dif
                         (ehash (hashinfo st) head) st
     in
     if found then (- EADDRNOTAVAIL, spin_unlock st lock)
     else
       let st = store_inet_num st sk lport;
           st = store_inet_sport st sk (htons lport);
           st = store_sk_hash st sk hash;
           st = sk_nulls_add_node_rcu st sk head;
           st = spin_unlock st lock;
           st = sock_prot_inuse_add st 1
       in (0, st))"

section \<open>Example values\<close>

text \<open>
  Concrete segments, sockets, tunables and tables on which the results below are
  evaluated. \<open>sk_user\<close> is an established connection whose owner has switched keepalive
  on with 7200 s idle time, 9 probes and 75 s interval at \<^verbatim>\<open>HZ = 100\<close>.
\<close>

definition addr_a :: nip_addr where
  "addr_a = \<lparr>bitlen = 16, nip_addr_field32_0 = 0x0a000001, nip_addr_field32_1 = 0\<rparr>"

definition addr_b :: nip_addr where
  "addr_b = \<lparr>bitlen = 16, nip_addr_field32_0 = 0x0a000002, nip_addr_field32_1 = 0\<rparr>"

definition skb_data :: sk_buff where
  "skb_data = \<lparr>pkt_type = 0, len = 120, skb_iif = 2, nipcb_nexthdr = 6,
     nipcb_srcaddr = addr_b, nipcb_dstaddr = addr_a, pkt_total_len = 100,
     transport_header = [], th_source = 4000, th_dest = 80, th_seq = 1000, th_ack_seq = 0,
     th_doff = 5, th_fin = False, th_syn = False, th_rst = False, th_ack = False,
     cb_seq = 1000, cb_end_seq = 1100, cb_tcp_flags = 0x10\<rparr>"

definition skb_badsum :: sk_buff where
  "skb_badsum = skb_data\<lparr>transport_header := [1]\<rparr>"

definition skb_rst :: sk_buff where
  "skb_rst = skb_data\<lparr>th_rst := True\<rparr>"

definition sk_user :: sock where
  "sk_user = \<lparr>sk_state = TCP_ESTABLISHED, sk_shutdown = 0, sk_err = 0,
     sock_keepopen = True, sock_done = False, sk_prot_keepalive = True,
     sk_send_head = Some skb_data, sk_receive_queue = [], sk_write_queue = [skb_data],
     sk_net = 0, sk_bound_dev_if = 0, sk_hash = 0,
     sk_nip_rcv_saddr = addr_a, sk_nip_daddr = addr_b,
     inet_num = 80, inet_sport = 80, inet_dport = 4000,
     sk_nulls_node = None, icsk_listen_portaddr_node = None,
     snd_nxt = 5000, write_seq = 5100, max_window = 65535,
     keepalive_time = 720000, keepalive_intvl = 7500, keepalive_probes = 9,
     keepalive_time_bak = 0, keepalive_probes_bak = 0, keepalive_intvl_bak = 0,
     nip_keepalive_enable = False, nip_keepalive_out = 0, idle_ka_probes_out = 0,
     calls = []\<rparr>"

definition sk_no_head :: sock where
  "sk_no_head = sk_user\<lparr>sk_send_head := None, sk_write_queue := []\<rparr>"

definition sk_unread :: sock where
  "sk_unread = sk_user\<lparr>sk_receive_queue := [skb_data]\<rparr>"

definition sk_idle :: sock where
  "sk_idle = sk_user\<lparr>keepalive_time := 5, keepalive_intvl := 25, keepalive_probes := 255,
     keepalive_time_bak := 720000, keepalive_probes_bak := 9, keepalive_intvl_bak := 7500,
     nip_keepalive_enable := True, idle_ka_probes_out := 20\<rparr>"

definition sk_idle_nobak :: sock where
  "sk_idle_nobak = sk_user\<lparr>keepalive_time := 5, keepalive_intvl := 25,
     keepalive_probes := 255, nip_keepalive_enable := True, idle_ka_probes_out := 20\<rparr>"

definition env_hz100 :: nip_env where
  "env_hz100 = \<lparr>HZ = 100, g_nip_keepalive_time = 25, g_nip_keepalive_time_short_pkt = 5,
     g_nip_keepalive_intvl = 25, g_nip_idle_ka_probes_out = 20,
     keepalive_time_elapsed = (\<lambda>sk. 0)\<rparr>"

definition env_tuned :: nip_env where
  "env_tuned = \<lparr>HZ = 100, g_nip_keepalive_time = 300, g_nip_keepalive_time_short_pkt = 200,
     g_nip_keepalive_intvl = 25, g_nip_idle_ka_probes_out = 20,
     keepalive_time_elapsed = (\<lambda>sk. 0)\<rparr>"

definition rcv_env_none :: rcv_env where
  "rcv_env_none = \<lparr>nip_check_sum_parse = (\<lambda>bytes l nph. if bytes = [] then 0xffff else 0),
     ninet_lookup_skb = (\<lambda>skb hl sport dport dif. None),
     rcv_found = (\<lambda>sk skb. (0, [Deliver]))\<rparr>"

definition henv :: hash_env where
  "henv = \<lparr>jhash_1word = (\<lambda>a b. a XOR b),
     jhash_3words = (\<lambda>a b c d. a XOR b XOR c XOR d),
     net_hash_mix = (\<lambda>net. 0),
     ninet_ehash_secret = 0,
     ninet_hash_secret = 0,
     ninet_ehashfn_mix = (\<lambda>lhash lport fhash fport initval. 5),
     inet_sk_listen_hashfn = (\<lambda>sk. unat (inet_num sk AND 31)),
     INET_COMBINED_PORTS = (\<lambda>sport dport. push_bit 16 (ucast dport) OR ucast sport),
     NINET_MATCH = (\<lambda>sk net saddr daddr ports dif.
        push_bit 16 (ucast (inet_num sk)) OR ucast (inet_dport sk) = ports \<and>
        sk_nip_daddr sk = saddr \<and> sk_nip_rcv_saddr sk = daddr \<and>
        (sk_bound_dev_if sk = 0 \<or> sk_bound_dev_if sk = dif) \<and> sk_net sk = net)\<rparr>"

definition sk_linked :: sock where
  "sk_linked = sk_user\<lparr>sk_hash := 5, sk_nulls_node := Some (Ehash_chain 5)\<rparr>"

definition sk_fresh :: sock where
  "sk_fresh = sk_user\<lparr>sk_state := TCP_SYN_SENT, inet_num := 0, inet_sport := 0\<rparr>"

definition st_tables :: kstate where
  "st_tables = \<lparr>socks = (\<lambda>a. sk_fresh)(3 := sk_linked),
     hashinfo = \<lparr>ehash = (\<lambda>slot. [])(5 := [3]), ehash_mask = 15, ehash_locks_mask = 7,
        listening_hash = (\<lambda>i. \<lparr>ilb_count = 0, ilb_head = []\<rparr>),
        lhash2 = None, lhash2_mask = 0\<rparr>,
     trace = []\<rparr>"

lemmas example_defs = addr_a_def addr_b_def skb_data_def sk_user_def env_hz100_def

lemmas table_defs = henv_def sk_linked_def sk_fresh_def st_tables_def

section \<open>Auxiliary facts\<close>

subsection \<open>Reading an unsigned value as a C int\<close>

lemma sint32: "sint (t::u32) = (if uint t < 2^31 then uint t else uint t - 2^32)"
proof -
  have s: "sint t = (uint t + 2147483648) mod 4294967296 - 2147483648"
    using int_word_sint [of "uint t", where 'a=32] by simp
  have b: "0 \<le> uint t" "uint t < 4294967296"
    using uint_lt2p [of t] by simp_all
  show ?thesis
  proof (cases "uint t < 2147483648")
    case True
    with b have "(uint t + 2147483648) mod 4294967296 = uint t + 2147483648"
      by simp
    with s True show ?thesis by simp
  next
    case False
    with b have "(uint t + 2147483648) mod 4294967296 = uint t + 2147483648 - 4294967296"
      by (simp add: mod_pos_geq)
    with s False show ?thesis by simp
  qed
qed

lemma sint_range32:
  "(sint (t::u32) < 1 \<or> sint t > 32767) \<longleftrightarrow> \<not> (1 \<le> unat t \<and> unat t \<le> 32767)"
proof -
  have "0 \<le> uint t" "uint t < 4294967296" using uint_lt2p [of t] by simp_all
  moreover have "int (unat t) = uint t" by simp
  ultimately show ?thesis unfolding sint32 by (simp; linarith)
qed

lemma uint_range8:
  "(uint (p::u8) < 1 \<or> uint p > 255) \<longleftrightarrow> \<not> (1 \<le> unat p \<and> unat p \<le> 255)"
proof -
  have "0 \<le> uint p" "uint p < 256" using uint_lt2p [of p] by simp_all
  moreover have "int (unat p) = uint p" by simp
  ultimately show ?thesis by (simp; linarith)
qed

subsection \<open>Testing a state against a set of state flags\<close>

lemma bit_TCPF: "bit (TCPF c) n \<longleftrightarrow> n = unat c \<and> unat c < 32"
  by (auto simp: TCPF_def bit_exp_iff push_bit_eq_mult)

lemma TCPF_test: "TCPF st AND m \<noteq> 0 \<longleftrightarrow> bit m (unat st)"
proof
  assume "TCPF st AND m \<noteq> 0"
  then obtain k where "bit (TCPF st AND m) k"
    by (auto simp: bit_eq_iff)
  then show "bit m (unat st)"
    by (auto simp: bit_and_iff bit_TCPF)
next
  assume b: "bit m (unat st)"
  then have "unat st < 32" using bit_imp_le_length [of m "unat st"] by simp
  with b have "bit (TCPF st AND m) (unat st)"
    by (simp add: bit_and_iff bit_TCPF)
  then show "TCPF st AND m \<noteq> 0" by auto
qed

lemma need_reset_iff:
  "tcp_nip_need_reset st \<longleftrightarrow>
     st \<in> {TCP_ESTABLISHED, TCP_CLOSE_WAIT, TCP_FIN_WAIT1, TCP_FIN_WAIT2, TCP_SYN_RECV}"
  unfolding tcp_nip_need_reset_def TCPF_test bit_or_iff bit_TCPF
  by (auto simp: tcp_state_codes word_unat_eq_iff)

lemma closing_or_last_ack_iff:
  "TCPF st AND (TCPF TCP_CLOSING OR TCPF TCP_LAST_ACK) \<noteq> 0 \<longleftrightarrow>
     st \<in> {TCP_CLOSING, TCP_LAST_ACK}"
  unfolding TCPF_test bit_or_iff bit_TCPF
  by (auto simp: tcp_state_codes word_unat_eq_iff)

lemma close_or_listen_iff:
  "state_in sk (TCPF TCP_CLOSE OR TCPF TCP_LISTEN) \<longleftrightarrow>
     sk_state sk \<in> {TCP_CLOSE, TCP_LISTEN}"
  unfolding state_in_def TCPF_test bit_or_iff bit_TCPF
  by (auto simp: tcp_state_codes word_unat_eq_iff)

section \<open>Keepalive: the parameter update\<close>

text \<open>
  The update, with the three range checks read on the unsigned values: a parameter that
  is zero, or above its maximum (as an \<^verbatim>\<open>int\<close>: also one with the top bit set), stops
  the call with \<^verbatim>\<open>-EINVAL\<close> at that point.
\<close>

lemma para_update_cases:
  "tcp_nip_keepalive_para_update e sk t i p =
    (if \<not> (1 \<le> unat t \<and> unat t \<le> 32767) then (- EINVAL, sk)
     else
       let sk1 = sk\<lparr>keepalive_time := t\<rparr>;
           sk2 = (if sock_keepopen sk1 \<and> \<not> state_in sk1 (TCPF TCP_CLOSE OR TCPF TCP_LISTEN)
                  then inet_csk_reset_keepalive_timer sk1
                        (if keepalive_time_elapsed e sk1 < t
                         then t - keepalive_time_elapsed e sk1 else 0)
                  else sk1)
       in if \<not> (1 \<le> unat i \<and> unat i \<le> 32767) then (- EINVAL, sk2)
          else if \<not> (1 \<le> unat p \<and> unat p \<le> 255)
          then (- EINVAL, sk2\<lparr>keepalive_intvl := i\<rparr>)
          else (0, if sk_prot_keepalive sk
                   then (prot_keepalive (sk2\<lparr>keepalive_intvl := i, keepalive_probes := p\<rparr>) 1)
                          \<lparr>sock_keepopen := True\<rparr>
                   else sk2\<lparr>keepalive_intvl := i, keepalive_probes := p\<rparr>))"
  unfolding tcp_nip_keepalive_para_update_def Let_def
    MAX_NIP_TCP_KEEPIDLE_def MAX_NIP_TCP_KEEPINTVL_def MAX_NIP_TCP_KEEPCNT_def
    sint_range32 uint_range8
  by (simp add: inet_csk_reset_keepalive_timer_def)

lemma para_update_ok_fields:
  assumes "fst (tcp_nip_keepalive_para_update e sk t i p) = 0"
  shows "keepalive_time (snd (tcp_nip_keepalive_para_update e sk t i p)) = t"
    and "keepalive_time_bak (snd (tcp_nip_keepalive_para_update e sk t i p)) =
           keepalive_time_bak sk"
    and "keepalive_probes_bak (snd (tcp_nip_keepalive_para_update e sk t i p)) =
           keepalive_probes_bak sk"
    and "keepalive_intvl_bak (snd (tcp_nip_keepalive_para_update e sk t i p)) =
           keepalive_intvl_bak sk"
    and "nip_keepalive_enable (snd (tcp_nip_keepalive_para_update e sk t i p)) =
           nip_keepalive_enable sk"
  using assms
  by (simp_all add: para_update_cases Let_def EINVAL_def prot_keepalive_def
      inet_csk_reset_keepalive_timer_def split: if_splits)

lemma para_update_fail_flag:
  "fst (tcp_nip_keepalive_para_update e sk t i p) \<noteq> 0 \<Longrightarrow>
   nip_keepalive_enable (snd (tcp_nip_keepalive_para_update e sk t i p)) =
     nip_keepalive_enable sk"
  by (simp add: para_update_cases Let_def EINVAL_def prot_keepalive_def
      inet_csk_reset_keepalive_timer_def split: if_splits)

text \<open>
  C4, as the code has it. The update accepts an idle time only in [1, 32767], an interval
  only in [1, 32767] and a probe count only in [1, 255], and returns \<^verbatim>\<open>-EINVAL\<close> for every
  input with a value out of range. The values are checked and stored one after another,
  in the order idle time, interval, probe count. An idle time out of range leaves the
  socket unchanged. When the idle time is in range and the interval or the probe count is
  not, the idle time has been stored, the keepalive timer has been re-armed if keepalive
  is on and the state is neither Closed nor Listen, the interval has been stored if it
  was in range, and nothing else has changed: the probe count, the keepalive flag, the
  idle-profile flag and the backup fields keep their values.
\<close>

theorem para_update_validation:
  fixes e sk t i p
  defines "r \<equiv> tcp_nip_keepalive_para_update e sk t i p"
  defines "ok_t \<equiv> 1 \<le> unat t \<and> unat t \<le> 32767"
  defines "ok_i \<equiv> 1 \<le> unat i \<and> unat i \<le> 32767"
  defines "ok_p \<equiv> 1 \<le> unat p \<and> unat p \<le> 255"
  defines "elapsed \<equiv> keepalive_time_elapsed e (sk\<lparr>keepalive_time := t\<rparr>)"
  shows "fst r = (if ok_t \<and> ok_i \<and> ok_p then 0 else - EINVAL) \<and>
    (\<not> ok_t \<longrightarrow> snd r = sk) \<and>
    (ok_t \<and> \<not> (ok_i \<and> ok_p) \<longrightarrow>
       snd r = sk\<lparr>keepalive_time := t,
                  keepalive_intvl := (if ok_i then i else keepalive_intvl sk),
                  calls := calls sk @
                    (if sock_keepopen sk \<and> sk_state sk \<notin> {TCP_CLOSE, TCP_LISTEN}
                     then [Reset_keepalive_timer (if elapsed < t then t - elapsed else 0)]
                     else [])\<rparr>)"
  unfolding r_def ok_t_def ok_i_def ok_p_def elapsed_def para_update_cases Let_def
    close_or_listen_iff
  by (auto simp: inet_csk_reset_keepalive_timer_def)

text \<open>
  The update at four inputs: idle time 0; interval 0; probe count 0; all three in range.
\<close>

theorem para_update_validation_witness:
  "tcp_nip_keepalive_para_update env_hz100 sk_user 0 25 255 = (- EINVAL, sk_user) \<and>
   tcp_nip_keepalive_para_update env_hz100 sk_user 25 0 255 =
     (- EINVAL, sk_user\<lparr>keepalive_time := 25, calls := [Reset_keepalive_timer 25]\<rparr>) \<and>
   tcp_nip_keepalive_para_update env_hz100 sk_user 25 25 0 =
     (- EINVAL, sk_user\<lparr>keepalive_time := 25, keepalive_intvl := 25,
                 calls := [Reset_keepalive_timer 25]\<rparr>) \<and>
   fst (tcp_nip_keepalive_para_update env_hz100 sk_user 25 25 255) = 0"
proof -
  have f: "sock_keepopen sk_user" "sk_state sk_user = TCP_ESTABLISHED" "calls sk_user = []"
    "keepalive_time_elapsed env_hz100 = (\<lambda>sk. 0)"
    by (simp_all add: sk_user_def env_hz100_def)
  from para_update_validation [where e=env_hz100 and sk=sk_user and t=0 and i=25 and p=255]
  have 1: "tcp_nip_keepalive_para_update env_hz100 sk_user 0 25 255 = (- EINVAL, sk_user)"
    by (simp add: prod_eq_iff)
  from para_update_validation [where e=env_hz100 and sk=sk_user and t=25 and i=0 and p=255] f
  have 2: "tcp_nip_keepalive_para_update env_hz100 sk_user 25 0 255 =
     (- EINVAL, sk_user\<lparr>keepalive_time := 25, calls := [Reset_keepalive_timer 25]\<rparr>)"
    by (simp add: prod_eq_iff tcp_state_codes)
  from para_update_validation [where e=env_hz100 and sk=sk_user and t=25 and i=25 and p=0] f
  have 3: "tcp_nip_keepalive_para_update env_hz100 sk_user 25 25 0 =
     (- EINVAL, sk_user\<lparr>keepalive_time := 25, keepalive_intvl := 25,
                 calls := [Reset_keepalive_timer 25]\<rparr>)"
    by (simp add: prod_eq_iff tcp_state_codes)
  from para_update_validation [where e=env_hz100 and sk=sk_user and t=25 and i=25 and p=255]
  have 4: "fst (tcp_nip_keepalive_para_update env_hz100 sk_user 25 25 255) = 0"
    by simp
  show ?thesis by (intro conjI) (fact 1 2 3 4)+
qed

text \<open>
  C4 as stated fails: with idle time 25 in range and interval 0 out of range, the call
  returns \<^verbatim>\<open>-EINVAL\<close> after it has overwritten the idle time of 7200 s and re-armed the
  keepalive timer.
\<close>

theorem para_update_partial_counterexample:
  "fst (tcp_nip_keepalive_para_update env_hz100 sk_user 25 0 255) = - EINVAL \<and>
   keepalive_time sk_user = 720000 \<and>
   keepalive_time (snd (tcp_nip_keepalive_para_update env_hz100 sk_user 25 0 255)) = 25 \<and>
   calls sk_user = [] \<and>
   calls (snd (tcp_nip_keepalive_para_update env_hz100 sk_user 25 0 255)) =
     [Reset_keepalive_timer 25]"
  by (simp add: para_update_cases example_defs state_in_def TCPF_def tcp_state_codes
      inet_csk_reset_keepalive_timer_def)

section \<open>Keepalive: entering the idle profile\<close>

text \<open>
  C10. With no send head (\<^verbatim>\<open>tcp_nip_send_head\<close> returns NULL, as it does when the write
  queue is empty), \<^verbatim>\<open>tcp_nip_keepalive_enable\<close> returns at once: the socket is left
  exactly as it was, so no keepalive parameter, backup field, timer or idle-profile flag
  changes.
\<close>

theorem keepalive_enable_no_send_head:
  "sk_send_head sk = None \<Longrightarrow> tcp_nip_keepalive_enable e sk = sk"
  by (simp add: tcp_nip_keepalive_enable_def tcp_nip_send_head_def)

theorem keepalive_enable_no_send_head_witness:
  "sk_send_head sk_no_head = None \<and>
   tcp_nip_keepalive_enable env_hz100 sk_no_head = sk_no_head"
proof -
  have h: "sk_send_head sk_no_head = None" by (simp add: sk_no_head_def)
  from h keepalive_enable_no_send_head [OF h] show ?thesis by (rule conjI)
qed

lemma idle_time_for_le:
  "g_nip_keepalive_time e \<le> HZ e \<Longrightarrow> g_nip_keepalive_time_short_pkt e \<le> HZ e \<Longrightarrow>
   idle_time_for e skb \<le> HZ e"
  by (simp add: idle_time_for_def)

lemma enable_active:
  "sk_send_head sk = Some skb \<Longrightarrow> nip_keepalive_enable sk \<Longrightarrow>
   tcp_nip_keepalive_enable e sk =
     (if HZ e < keepalive_time sk
      then sk\<lparr>keepalive_time_bak := keepalive_time sk,
              keepalive_probes_bak := keepalive_probes sk,
              keepalive_intvl_bak := keepalive_intvl sk,
              keepalive_time := idle_time_for e skb,
              keepalive_probes := NIP_KEEPALIVE_PROBES,
              keepalive_intvl := g_nip_keepalive_intvl e,
              calls := calls sk @ [Reset_keepalive_timer (idle_time_for e skb)]\<rparr>
      else sk)"
  by (simp add: tcp_nip_keepalive_enable_def tcp_nip_send_head_def Let_def
      idle_time_for_def inet_csk_reset_keepalive_timer_def)

lemma enable_inactive:
  "sk_send_head sk = Some skb \<Longrightarrow> \<not> nip_keepalive_enable sk \<Longrightarrow>
   tcp_nip_keepalive_enable e sk =
     (let sk1 = (if sock_keepopen sk
                 then sk\<lparr>keepalive_time_bak := keepalive_time sk,
                         keepalive_probes_bak := keepalive_probes sk,
                         keepalive_intvl_bak := keepalive_intvl sk\<rparr>
                 else sk);
          r = tcp_nip_keepalive_para_update e sk1 (idle_time_for e skb)
                (g_nip_keepalive_intvl e) NIP_KEEPALIVE_PROBES
      in if fst r \<noteq> 0 then snd r else (snd r)\<lparr>nip_keepalive_enable := True\<rparr>)"
  by (simp add: tcp_nip_keepalive_enable_def tcp_nip_send_head_def Let_def
      idle_time_for_def case_prod_unfold)

lemma enable_idle_fixpoint:
  "nip_keepalive_enable sk \<Longrightarrow> keepalive_time sk \<le> HZ e \<Longrightarrow>
   tcp_nip_keepalive_enable e sk = sk"
  by (auto simp: tcp_nip_keepalive_enable_def Let_def split: option.splits)

text \<open>
  One call that leaves the idle profile active, with idle-profile times not above
  \<^verbatim>\<open>HZ\<close>: either nothing changed, or the idle time now is at most \<^verbatim>\<open>HZ\<close>; and where the
  call took a backup, the backup holds the parameters the socket had before the call.
\<close>

lemma enable_result:
  assumes thr: "g_nip_keepalive_time e \<le> HZ e" "g_nip_keepalive_time_short_pkt e \<le> HZ e"
    and act: "nip_keepalive_enable (tcp_nip_keepalive_enable e sk)"
  shows "(keepalive_time (tcp_nip_keepalive_enable e sk) \<le> HZ e \<or>
          tcp_nip_keepalive_enable e sk = sk) \<and>
         (sk_send_head sk \<noteq> None \<and>
          (if nip_keepalive_enable sk then HZ e < keepalive_time sk else sock_keepopen sk) \<longrightarrow>
          keepalive_time_bak (tcp_nip_keepalive_enable e sk) = keepalive_time sk \<and>
          keepalive_probes_bak (tcp_nip_keepalive_enable e sk) = keepalive_probes sk \<and>
          keepalive_intvl_bak (tcp_nip_keepalive_enable e sk) = keepalive_intvl sk)"
proof (cases "sk_send_head sk")
  case None
  then show ?thesis
    by (simp add: tcp_nip_keepalive_enable_def tcp_nip_send_head_def)
next
  case (Some skb)
  note le = idle_time_for_le [OF thr, of skb]
  show ?thesis
  proof (cases "nip_keepalive_enable sk")
    case True
    with Some le show ?thesis by (simp add: enable_active)
  next
    case False
    define sk1 where "sk1 = (if sock_keepopen sk
                 then sk\<lparr>keepalive_time_bak := keepalive_time sk,
                         keepalive_probes_bak := keepalive_probes sk,
                         keepalive_intvl_bak := keepalive_intvl sk\<rparr>
                 else sk)"
    define r where "r = tcp_nip_keepalive_para_update e sk1 (idle_time_for e skb)
                (g_nip_keepalive_intvl e) NIP_KEEPALIVE_PROBES"
    have en: "tcp_nip_keepalive_enable e sk =
        (if fst r \<noteq> 0 then snd r else (snd r)\<lparr>nip_keepalive_enable := True\<rparr>)"
      using Some False by (simp add: enable_inactive sk1_def r_def Let_def)
    have off: "\<not> nip_keepalive_enable sk1" using False by (simp add: sk1_def)
    have ok: "fst r = 0"
    proof (rule ccontr)
      assume "fst r \<noteq> 0"
      then have "nip_keepalive_enable (tcp_nip_keepalive_enable e sk) =
          nip_keepalive_enable sk1"
        unfolding en r_def by (simp add: para_update_fail_flag)
      with act off show False by simp
    qed
    note f = para_update_ok_fields [OF ok [unfolded r_def], folded r_def]
    from ok have en': "tcp_nip_keepalive_enable e sk = (snd r)\<lparr>nip_keepalive_enable := True\<rparr>"
      by (simp add: en)
    show ?thesis
      using False le by (simp add: en' f sk1_def)
  qed
qed

text \<open>
  C1, as the code has it. The code tells user values from idle-profile values by
  comparing the idle time with \<^verbatim>\<open>HZ\<close>. When the idle-profile idle times
  (\<^verbatim>\<open>g_nip_keepalive_time\<close>, \<^verbatim>\<open>g_nip_keepalive_time_short_pkt\<close>) are not above \<^verbatim>\<open>HZ\<close>,
  a second \<^verbatim>\<open>tcp_nip_keepalive_enable\<close>, called while the idle profile is active, changes
  nothing at all; so the backed-up idle time, probe count and interval stay as the first
  call left them, and where the first call took a backup they are the values the user
  parameters had before the first call.
\<close>

theorem keepalive_enable_twice:
  assumes thr: "g_nip_keepalive_time e \<le> HZ e" "g_nip_keepalive_time_short_pkt e \<le> HZ e"
    and act: "nip_keepalive_enable (tcp_nip_keepalive_enable e sk)"
  shows "tcp_nip_keepalive_enable e (tcp_nip_keepalive_enable e sk) =
           tcp_nip_keepalive_enable e sk \<and>
         (sk_send_head sk \<noteq> None \<and>
          (if nip_keepalive_enable sk then HZ e < keepalive_time sk else sock_keepopen sk) \<longrightarrow>
          keepalive_time_bak (tcp_nip_keepalive_enable e (tcp_nip_keepalive_enable e sk)) =
            keepalive_time sk \<and>
          keepalive_probes_bak (tcp_nip_keepalive_enable e (tcp_nip_keepalive_enable e sk)) =
            keepalive_probes sk \<and>
          keepalive_intvl_bak (tcp_nip_keepalive_enable e (tcp_nip_keepalive_enable e sk)) =
            keepalive_intvl sk)"
proof -
  note r = enable_result [OF thr act]
  have twice: "tcp_nip_keepalive_enable e (tcp_nip_keepalive_enable e sk) =
           tcp_nip_keepalive_enable e sk"
  proof (cases "tcp_nip_keepalive_enable e sk = sk")
    case True
    then show ?thesis by simp
  next
    case False
    with r have "keepalive_time (tcp_nip_keepalive_enable e sk) \<le> HZ e" by simp
    with act show ?thesis by (simp add: enable_idle_fixpoint)
  qed
  show ?thesis unfolding twice using r by simp
qed

text \<open>
  With idle-profile times 25 and 5 at \<^verbatim>\<open>HZ = 100\<close>: the first call backs up 7200 s, 9
  probes and 75 s, and the second call leaves them.
\<close>

theorem keepalive_enable_twice_witness:
  "g_nip_keepalive_time env_hz100 \<le> HZ env_hz100 \<and>
   g_nip_keepalive_time_short_pkt env_hz100 \<le> HZ env_hz100 \<and>
   nip_keepalive_enable (tcp_nip_keepalive_enable env_hz100 sk_user) \<and>
   tcp_nip_keepalive_enable env_hz100 (tcp_nip_keepalive_enable env_hz100 sk_user) =
     tcp_nip_keepalive_enable env_hz100 sk_user \<and>
   keepalive_time_bak
     (tcp_nip_keepalive_enable env_hz100 (tcp_nip_keepalive_enable env_hz100 sk_user)) =
     720000 \<and>
   keepalive_probes_bak
     (tcp_nip_keepalive_enable env_hz100 (tcp_nip_keepalive_enable env_hz100 sk_user)) = 9 \<and>
   keepalive_intvl_bak
     (tcp_nip_keepalive_enable env_hz100 (tcp_nip_keepalive_enable env_hz100 sk_user)) = 7500"
proof -
  have thr: "g_nip_keepalive_time env_hz100 \<le> HZ env_hz100"
    "g_nip_keepalive_time_short_pkt env_hz100 \<le> HZ env_hz100"
    by (simp_all add: env_hz100_def)
  have once: "tcp_nip_keepalive_enable env_hz100 sk_user =
     sk_user\<lparr>keepalive_time_bak := 720000, keepalive_probes_bak := 9,
       keepalive_intvl_bak := 7500, keepalive_time := 5, keepalive_intvl := 25,
       keepalive_probes := 255, nip_keepalive_enable := True,
       calls := [Reset_keepalive_timer 5, Prot_keepalive 1]\<rparr>"
    by (simp add: tcp_nip_keepalive_enable_def tcp_nip_send_head_def para_update_cases
      example_defs state_in_def TCPF_def tcp_state_codes
      inet_csk_reset_keepalive_timer_def prot_keepalive_def
      NIP_PKT_TOTAL_LEN_BOUNDARY_def NIP_KEEPALIVE_PROBES_def)
  have act: "nip_keepalive_enable (tcp_nip_keepalive_enable env_hz100 sk_user)"
    by (simp add: once)
  have usr: "sk_send_head sk_user \<noteq> None" "\<not> nip_keepalive_enable sk_user"
    "sock_keepopen sk_user" "keepalive_time sk_user = 720000"
    "keepalive_probes sk_user = 9" "keepalive_intvl sk_user = 7500"
    by (simp_all add: sk_user_def)
  note t = keepalive_enable_twice [OF thr act]
  from t have a: "tcp_nip_keepalive_enable env_hz100
      (tcp_nip_keepalive_enable env_hz100 sk_user) =
      tcp_nip_keepalive_enable env_hz100 sk_user"
    by (rule conjunct1)
  from t [THEN conjunct2] usr have b:
    "keepalive_time_bak
      (tcp_nip_keepalive_enable env_hz100 (tcp_nip_keepalive_enable env_hz100 sk_user)) =
      720000"
    "keepalive_probes_bak
      (tcp_nip_keepalive_enable env_hz100 (tcp_nip_keepalive_enable env_hz100 sk_user)) = 9"
    "keepalive_intvl_bak
      (tcp_nip_keepalive_enable env_hz100 (tcp_nip_keepalive_enable env_hz100 sk_user)) =
      7500"
    by simp_all
  show ?thesis
    by (intro conjI) (fact thr act a b)+
qed

lemma enable_tuned_once:
  "tcp_nip_keepalive_enable env_tuned sk_user =
     sk_user\<lparr>keepalive_time_bak := 720000, keepalive_probes_bak := 9,
       keepalive_intvl_bak := 7500, keepalive_time := 200, keepalive_intvl := 25,
       keepalive_probes := 255, nip_keepalive_enable := True,
       calls := [Reset_keepalive_timer 200, Prot_keepalive 1]\<rparr>"
  by (simp add: tcp_nip_keepalive_enable_def tcp_nip_send_head_def para_update_cases
      example_defs env_tuned_def state_in_def TCPF_def tcp_state_codes
      inet_csk_reset_keepalive_timer_def prot_keepalive_def
      NIP_PKT_TOTAL_LEN_BOUNDARY_def NIP_KEEPALIVE_PROBES_def)

text \<open>
  C1 as stated fails when an idle-profile time is tuned above \<^verbatim>\<open>HZ\<close> (here 200 at
  \<^verbatim>\<open>HZ = 100\<close>, within the range the update accepts): the first call backs up the user's
  7200 s, 9 probes and 75 s and activates the idle profile; the second call, made while
  it is active, takes the idle-profile values for user values and overwrites the backup
  with 200, 255 and 25, and so does every call after it.
\<close>

theorem keepalive_enable_twice_counterexample:
  "nip_keepalive_enable (tcp_nip_keepalive_enable env_tuned sk_user) \<and>
   keepalive_time sk_user = 720000 \<and>
   keepalive_time_bak (tcp_nip_keepalive_enable env_tuned sk_user) = 720000 \<and>
   keepalive_time_bak
     (tcp_nip_keepalive_enable env_tuned (tcp_nip_keepalive_enable env_tuned sk_user)) = 200 \<and>
   keepalive_probes_bak
     (tcp_nip_keepalive_enable env_tuned (tcp_nip_keepalive_enable env_tuned sk_user)) = 255 \<and>
   keepalive_intvl_bak
     (tcp_nip_keepalive_enable env_tuned (tcp_nip_keepalive_enable env_tuned sk_user)) = 25 \<and>
   keepalive_time_bak
     (tcp_nip_keepalive_enable env_tuned
       (tcp_nip_keepalive_enable env_tuned (tcp_nip_keepalive_enable env_tuned sk_user))) = 200"
  unfolding enable_tuned_once
  by (simp add: tcp_nip_keepalive_enable_def tcp_nip_send_head_def
      example_defs env_tuned_def inet_csk_reset_keepalive_timer_def
      NIP_PKT_TOTAL_LEN_BOUNDARY_def NIP_KEEPALIVE_PROBES_def)

section \<open>Keepalive: leaving the idle profile\<close>

text \<open>
  C3, as the code has it. When \<^verbatim>\<open>tcp_nip_keepalive_disable\<close> runs with the idle profile
  active, keepalive on and the configured number of idle-profile probes unanswered: if a
  backed-up idle time exists (is not zero), the three user values are restored and the
  keepalive timer is re-armed with the restored idle time, and the call returns there,
  with the backup fields and the idle-profile flag as they were; if none exists, the
  backup fields are zero, the keepalive hook is called with 0, keepalive is switched off
  and the idle-profile flag is cleared.
\<close>

theorem keepalive_disable_exhausted:
  assumes "nip_keepalive_enable sk" and "sock_keepopen sk"
    and "g_nip_idle_ka_probes_out e \<le> idle_ka_probes_out sk"
  shows "(keepalive_time_bak sk \<noteq> 0 \<longrightarrow>
            tcp_nip_keepalive_disable e sk =
              sk\<lparr>keepalive_time := keepalive_time_bak sk,
                  keepalive_probes := keepalive_probes_bak sk,
                  keepalive_intvl := keepalive_intvl_bak sk,
                  calls := calls sk @ [Reset_keepalive_timer (keepalive_time_bak sk)]\<rparr>) \<and>
         (keepalive_time_bak sk = 0 \<longrightarrow>
            tcp_nip_keepalive_disable e sk =
              sk\<lparr>keepalive_time_bak := 0, keepalive_probes_bak := 0, keepalive_intvl_bak := 0,
                  sock_keepopen := False, nip_keepalive_enable := False,
                  calls := calls sk @
                    (if sk_prot_keepalive sk then [Prot_keepalive 0] else [])\<rparr>)"
  using assms
  by (simp add: tcp_nip_keepalive_disable_def inet_csk_reset_keepalive_timer_def
      prot_keepalive_def Let_def)

text \<open>Both branches, on a socket with a backup and on one without.\<close>

theorem keepalive_disable_exhausted_witness:
  "nip_keepalive_enable sk_idle \<and> sock_keepopen sk_idle \<and>
   g_nip_idle_ka_probes_out env_hz100 \<le> idle_ka_probes_out sk_idle \<and>
   keepalive_time_bak sk_idle \<noteq> 0 \<and>
   tcp_nip_keepalive_disable env_hz100 sk_idle =
     sk_idle\<lparr>keepalive_time := 720000, keepalive_probes := 9, keepalive_intvl := 7500,
       calls := [Reset_keepalive_timer 720000]\<rparr> \<and>
   nip_keepalive_enable sk_idle_nobak \<and> sock_keepopen sk_idle_nobak \<and>
   g_nip_idle_ka_probes_out env_hz100 \<le> idle_ka_probes_out sk_idle_nobak \<and>
   keepalive_time_bak sk_idle_nobak = 0 \<and>
   tcp_nip_keepalive_disable env_hz100 sk_idle_nobak =
     sk_idle_nobak\<lparr>keepalive_time_bak := 0, keepalive_probes_bak := 0,
       keepalive_intvl_bak := 0, sock_keepopen := False, nip_keepalive_enable := False,
       calls := [Prot_keepalive 0]\<rparr>"
proof -
  have a: "nip_keepalive_enable sk_idle" "sock_keepopen sk_idle"
    "g_nip_idle_ka_probes_out env_hz100 \<le> idle_ka_probes_out sk_idle"
    by (simp_all add: sk_idle_def example_defs)
  have a': "keepalive_time_bak sk_idle \<noteq> 0"
    by (simp add: sk_idle_def)
  have fa: "keepalive_time_bak sk_idle = 720000" "keepalive_probes_bak sk_idle = 9"
    "keepalive_intvl_bak sk_idle = 7500" "calls sk_idle = []"
    by (simp_all add: sk_idle_def example_defs)
  have b: "nip_keepalive_enable sk_idle_nobak" "sock_keepopen sk_idle_nobak"
    "g_nip_idle_ka_probes_out env_hz100 \<le> idle_ka_probes_out sk_idle_nobak"
    by (simp_all add: sk_idle_nobak_def example_defs)
  have b': "keepalive_time_bak sk_idle_nobak = 0"
    by (simp add: sk_idle_nobak_def example_defs)
  have fb: "sk_prot_keepalive sk_idle_nobak" "calls sk_idle_nobak = []"
    by (simp_all add: sk_idle_nobak_def example_defs)
  from keepalive_disable_exhausted [OF a] a' fa
  have 1: "tcp_nip_keepalive_disable env_hz100 sk_idle =
     sk_idle\<lparr>keepalive_time := 720000, keepalive_probes := 9, keepalive_intvl := 7500,
       calls := [Reset_keepalive_timer 720000]\<rparr>"
    by simp
  from keepalive_disable_exhausted [OF b] b' fb
  have 2: "tcp_nip_keepalive_disable env_hz100 sk_idle_nobak =
     sk_idle_nobak\<lparr>keepalive_time_bak := 0, keepalive_probes_bak := 0,
       keepalive_intvl_bak := 0, sock_keepopen := False, nip_keepalive_enable := False,
       calls := [Prot_keepalive 0]\<rparr>"
    by simp
  show ?thesis by (intro conjI) (fact a a' 1 b b' 2)+
qed

text \<open>
  C3 as stated fails on the restoring branch: the user values come back, but the backup
  fields still hold 7200 s, 9 and 75 s and the idle-profile flag is still set.
\<close>

theorem keepalive_disable_counterexample:
  "nip_keepalive_enable sk_idle \<and> sock_keepopen sk_idle \<and>
   g_nip_idle_ka_probes_out env_hz100 \<le> idle_ka_probes_out sk_idle \<and>
   keepalive_time_bak sk_idle = 720000 \<and>
   keepalive_time (tcp_nip_keepalive_disable env_hz100 sk_idle) = 720000 \<and>
   keepalive_time_bak (tcp_nip_keepalive_disable env_hz100 sk_idle) = 720000 \<and>
   keepalive_probes_bak (tcp_nip_keepalive_disable env_hz100 sk_idle) = 9 \<and>
   keepalive_intvl_bak (tcp_nip_keepalive_disable env_hz100 sk_idle) = 7500 \<and>
   nip_keepalive_enable (tcp_nip_keepalive_disable env_hz100 sk_idle)"
  by (simp add: tcp_nip_keepalive_disable_def sk_idle_def example_defs
      inet_csk_reset_keepalive_timer_def)

section \<open>Closing\<close>

text \<open>The table, read through \<^verbatim>\<open>tcp_nip_close_state\<close>, state by state.\<close>

lemma close_state_table:
  "sk_state sk \<in> {TCP_ESTABLISHED, TCP_SYN_RECV} \<Longrightarrow>
     tcp_nip_close_state sk = (sk\<lparr>sk_state := TCP_FIN_WAIT1\<rparr>, TCP_ACTION_FIN)"
  "sk_state sk = TCP_CLOSE_WAIT \<Longrightarrow>
     tcp_nip_close_state sk = (sk\<lparr>sk_state := TCP_LAST_ACK\<rparr>, TCP_ACTION_FIN)"
  "sk_state sk \<in> {TCP_FIN_WAIT1, TCP_FIN_WAIT2, TCP_CLOSING, TCP_LAST_ACK} \<Longrightarrow>
     tcp_nip_close_state sk = (sk, 0)"
  "sk_state sk \<in> {0, TCP_SYN_SENT, TCP_TIME_WAIT, TCP_CLOSE, TCP_LISTEN, TCP_NEW_SYN_RECV} \<Longrightarrow>
     tcp_nip_close_state sk = (sk\<lparr>sk_state := TCP_CLOSE\<rparr>, 0)"
  by (auto simp: tcp_nip_close_state_def new_state_def tcp_set_state_def Let_def
      tcp_state_codes TCP_STATE_MASK_def TCP_ACTION_FIN_def)

lemma action_fin_nonzero: "TCP_ACTION_FIN \<noteq> 0"
  by (simp add: TCP_ACTION_FIN_def tcp_state_codes)

text \<open>
  C2, as the code has it. \<^verbatim>\<open>tcp_nip_close\<close> takes its transition from the table only
  when the receive queue held no unread data: then Established and SynRecv go to FinWait1
  with a FIN, CloseWait goes to LastAck with a FIN, FinWait1, FinWait2, Closing and LastAck
  stay as they are without a FIN, and the invalid state, SynSent, TimeWait, Closed and the
  new-SYN-received state go to Closed without a FIN. Listen goes to Closed without a FIN
  (and the listener is stopped) before the table is consulted. When unread data was
  discarded, a socket in a state other than Listen and Closed goes to Closed and a reset
  is sent, whatever the table says.
\<close>

theorem close_follows_table:
  fixes sk :: sock
  defines "unread \<equiv> data_was_unread (sk_receive_queue sk) 0"
  shows
  "(unread = 0 \<longrightarrow>
     (sk_state sk \<in> {TCP_ESTABLISHED, TCP_SYN_RECV} \<longrightarrow>
        sk_state (tcp_nip_close sk) = TCP_FIN_WAIT1 \<and>
        calls (tcp_nip_close sk) = calls sk @ [Send_fin]) \<and>
     (sk_state sk = TCP_CLOSE_WAIT \<longrightarrow>
        sk_state (tcp_nip_close sk) = TCP_LAST_ACK \<and>
        calls (tcp_nip_close sk) = calls sk @ [Send_fin]) \<and>
     (sk_state sk \<in> {TCP_FIN_WAIT1, TCP_FIN_WAIT2, TCP_CLOSING, TCP_LAST_ACK} \<longrightarrow>
        sk_state (tcp_nip_close sk) = sk_state sk \<and>
        calls (tcp_nip_close sk) = calls sk) \<and>
     (sk_state sk \<in> {0, TCP_SYN_SENT, TCP_TIME_WAIT, TCP_CLOSE, TCP_NEW_SYN_RECV} \<longrightarrow>
        sk_state (tcp_nip_close sk) = TCP_CLOSE \<and>
        calls (tcp_nip_close sk) = calls sk)) \<and>
   (sk_state sk = TCP_LISTEN \<longrightarrow>
        sk_state (tcp_nip_close sk) = TCP_CLOSE \<and>
        calls (tcp_nip_close sk) = calls sk @ [Listen_stop]) \<and>
   (unread \<noteq> 0 \<longrightarrow>
     (sk_state sk = TCP_CLOSE \<longrightarrow>
        sk_state (tcp_nip_close sk) = TCP_CLOSE \<and>
        calls (tcp_nip_close sk) = calls sk) \<and>
     (sk_state sk \<notin> {TCP_CLOSE, TCP_LISTEN} \<longrightarrow>
        sk_state (tcp_nip_close sk) = TCP_CLOSE \<and>
        calls (tcp_nip_close sk) = calls sk @ [Send_active_reset]))"
proof -
  let ?sk = "sk\<lparr>sk_shutdown := SHUTDOWN_MASK, sk_receive_queue := []\<rparr>"
  have listen: "sk_state sk = TCP_LISTEN \<Longrightarrow>
      tcp_nip_close sk =
        inet_csk_listen_stop (tcp_set_state (sk\<lparr>sk_shutdown := SHUTDOWN_MASK\<rparr>) TCP_CLOSE)"
    by (simp add: tcp_nip_close_def)
  have other: "sk_state sk \<noteq> TCP_LISTEN \<Longrightarrow>
      tcp_nip_close sk =
        (if sk_state sk = TCP_CLOSE then ?sk
         else if unread \<noteq> 0 then tcp_nip_send_active_reset (tcp_set_state ?sk TCP_CLOSE)
         else if snd (tcp_nip_close_state ?sk) \<noteq> 0
              then tcp_nip_send_fin (fst (tcp_nip_close_state ?sk))
              else fst (tcp_nip_close_state ?sk))"
    by (simp add: tcp_nip_close_def unread_def Let_def case_prod_unfold)
  have a: "unread = 0 \<Longrightarrow> sk_state sk \<in> {TCP_ESTABLISHED, TCP_SYN_RECV} \<Longrightarrow>
        sk_state (tcp_nip_close sk) = TCP_FIN_WAIT1 \<and>
        calls (tcp_nip_close sk) = calls sk @ [Send_fin]"
    using close_state_table(1) [of ?sk]
    by (auto simp: other action_fin_nonzero tcp_nip_send_fin_def tcp_state_codes)
  have b: "unread = 0 \<Longrightarrow> sk_state sk = TCP_CLOSE_WAIT \<Longrightarrow>
        sk_state (tcp_nip_close sk) = TCP_LAST_ACK \<and>
        calls (tcp_nip_close sk) = calls sk @ [Send_fin]"
    using close_state_table(2) [of ?sk]
    by (auto simp: other action_fin_nonzero tcp_nip_send_fin_def tcp_state_codes)
  have c: "unread = 0 \<Longrightarrow>
        sk_state sk \<in> {TCP_FIN_WAIT1, TCP_FIN_WAIT2, TCP_CLOSING, TCP_LAST_ACK} \<Longrightarrow>
        sk_state (tcp_nip_close sk) = sk_state sk \<and>
        calls (tcp_nip_close sk) = calls sk"
    using close_state_table(3) [of ?sk]
    by (auto simp: other tcp_state_codes)
  have d: "unread = 0 \<Longrightarrow>
        sk_state sk \<in> {0, TCP_SYN_SENT, TCP_TIME_WAIT, TCP_CLOSE, TCP_NEW_SYN_RECV} \<Longrightarrow>
        sk_state (tcp_nip_close sk) = TCP_CLOSE \<and>
        calls (tcp_nip_close sk) = calls sk"
    using close_state_table(4) [of ?sk]
    by (auto simp: other tcp_state_codes)
  have e: "sk_state sk = TCP_LISTEN \<Longrightarrow>
        sk_state (tcp_nip_close sk) = TCP_CLOSE \<and>
        calls (tcp_nip_close sk) = calls sk @ [Listen_stop]"
    by (simp add: listen inet_csk_listen_stop_def tcp_set_state_def)
  have f: "unread \<noteq> 0 \<Longrightarrow> sk_state sk = TCP_CLOSE \<Longrightarrow>
        sk_state (tcp_nip_close sk) = TCP_CLOSE \<and>
        calls (tcp_nip_close sk) = calls sk"
    by (simp add: other tcp_state_codes)
  have g: "unread \<noteq> 0 \<Longrightarrow> sk_state sk \<notin> {TCP_CLOSE, TCP_LISTEN} \<Longrightarrow>
        sk_state (tcp_nip_close sk) = TCP_CLOSE \<and>
        calls (tcp_nip_close sk) = calls sk @ [Send_active_reset]"
    by (simp add: other tcp_nip_send_active_reset_def tcp_set_state_def)
  from a b c d e f g show ?thesis by blast
qed

text \<open>
  An established socket with an empty receive queue sends a FIN and enters FinWait1; the
  same socket with 100 unread bytes sends a reset and is Closed.
\<close>

theorem close_follows_table_witness:
  "data_was_unread (sk_receive_queue sk_user) 0 = 0 \<and>
   sk_state sk_user = TCP_ESTABLISHED \<and>
   sk_state (tcp_nip_close sk_user) = TCP_FIN_WAIT1 \<and>
   calls (tcp_nip_close sk_user) = [Send_fin] \<and>
   data_was_unread (sk_receive_queue sk_unread) 0 = 100 \<and>
   sk_state (tcp_nip_close sk_unread) = TCP_CLOSE \<and>
   calls (tcp_nip_close sk_unread) = [Send_active_reset]"
proof -
  have u: "data_was_unread (sk_receive_queue sk_user) 0 = 0"
    "sk_state sk_user = TCP_ESTABLISHED" "calls sk_user = []"
    by (simp_all add: sk_user_def)
  have v: "data_was_unread (sk_receive_queue sk_unread) 0 = 100"
    "sk_state sk_unread = TCP_ESTABLISHED" "calls sk_unread = []"
    by (simp_all add: sk_unread_def example_defs TCPHDR_FIN_def Let_def)
  from close_follows_table [of sk_user] u
  have 1: "sk_state (tcp_nip_close sk_user) = TCP_FIN_WAIT1"
    "calls (tcp_nip_close sk_user) = [Send_fin]"
    by simp_all
  from close_follows_table [of sk_unread] v
  have 2: "sk_state (tcp_nip_close sk_unread) = TCP_CLOSE"
    "calls (tcp_nip_close sk_unread) = [Send_active_reset]"
    by (simp_all add: tcp_state_codes)
  show ?thesis by (intro conjI) (fact u v 1 2)+
qed

text \<open>
  C2 as stated fails: closing an established socket that still has unread data does not
  follow the table entry (FinWait1 with a FIN); the socket is Closed and a reset is sent.
\<close>

theorem close_unread_counterexample:
  "sk_state sk_unread = TCP_ESTABLISHED \<and>
   sk_state (tcp_nip_close sk_unread) = TCP_CLOSE \<and>
   sk_state (tcp_nip_close sk_unread) \<noteq> TCP_FIN_WAIT1 \<and>
   calls (tcp_nip_close sk_unread) = [Send_active_reset]"
  by (simp add: tcp_nip_close_def sk_unread_def example_defs Let_def tcp_state_codes
      tcp_nip_send_active_reset_def tcp_set_state_def TCPHDR_FIN_def)

section \<open>Disconnecting\<close>

lemma disconnect_state_calls:
  "sk_state (snd (tcp_nip_disconnect sk flags)) = TCP_CLOSE"
  "calls (snd (tcp_nip_disconnect sk flags)) =
     calls sk @
     (if sk_state sk = TCP_LISTEN then [Listen_stop]
      else if tcp_nip_need_reset (sk_state sk) \<or>
              (snd_nxt sk \<noteq> write_seq sk \<and>
               TCPF (sk_state sk) AND (TCPF TCP_CLOSING OR TCPF TCP_LAST_ACK) \<noteq> 0)
      then [Send_active_reset] else []) @
     [Clear_xmit_timers, Error_report]"
  by (simp_all add: tcp_nip_disconnect_def Let_def tcp_set_state_def inet_csk_listen_stop_def
      tcp_nip_send_active_reset_def tcp_nip_clear_xmit_timers_def tcp_nip_rtt_init_def)

text \<open>
  C7. \<^verbatim>\<open>tcp_nip_disconnect\<close> leaves the socket in \<^verbatim>\<open>TCP_CLOSE\<close> whatever state it
  started in, and among the calls it makes there is a reset exactly when the prior state
  is one of Established, CloseWait, FinWait1, FinWait2, SynRecv, or when \<^verbatim>\<open>snd_nxt\<close>
  differs from \<^verbatim>\<open>write_seq\<close> and the prior state is Closing or LastAck.
\<close>

theorem disconnect_closed_and_reset:
  "sk_state (snd (tcp_nip_disconnect sk flags)) = TCP_CLOSE \<and>
   (Send_active_reset \<in>
      set (drop (length (calls sk)) (calls (snd (tcp_nip_disconnect sk flags))))
      \<longleftrightarrow>
    sk_state sk \<in> {TCP_ESTABLISHED, TCP_CLOSE_WAIT, TCP_FIN_WAIT1, TCP_FIN_WAIT2, TCP_SYN_RECV} \<or>
    (snd_nxt sk \<noteq> write_seq sk \<and> sk_state sk \<in> {TCP_CLOSING, TCP_LAST_ACK}))"
  unfolding disconnect_state_calls need_reset_iff closing_or_last_ack_iff
  by (auto simp: tcp_state_codes)

text \<open>
  Disconnecting the established example socket, and the same socket in LastAck with
  \<^verbatim>\<open>snd_nxt = 5000\<close> and \<^verbatim>\<open>write_seq = 5100\<close>: both are Closed and a reset is sent.
\<close>

theorem disconnect_closed_and_reset_witness:
  "sk_state (snd (tcp_nip_disconnect sk_user 0)) = TCP_CLOSE \<and>
   Send_active_reset \<in>
      set (drop (length (calls sk_user)) (calls (snd (tcp_nip_disconnect sk_user 0)))) \<and>
   sk_state (snd (tcp_nip_disconnect (sk_user\<lparr>sk_state := TCP_LAST_ACK\<rparr>) 0)) = TCP_CLOSE \<and>
   Send_active_reset \<in>
      set (drop (length (calls (sk_user\<lparr>sk_state := TCP_LAST_ACK\<rparr>)))
             (calls (snd (tcp_nip_disconnect (sk_user\<lparr>sk_state := TCP_LAST_ACK\<rparr>) 0))))"
proof -
  have u: "sk_state sk_user = TCP_ESTABLISHED" "snd_nxt sk_user \<noteq> write_seq sk_user"
    by (simp_all add: sk_user_def)
  from disconnect_closed_and_reset [of sk_user 0] u
  have 1: "sk_state (snd (tcp_nip_disconnect sk_user 0)) = TCP_CLOSE"
    "Send_active_reset \<in>
      set (drop (length (calls sk_user)) (calls (snd (tcp_nip_disconnect sk_user 0))))"
    by simp_all
  from disconnect_closed_and_reset [of "sk_user\<lparr>sk_state := TCP_LAST_ACK\<rparr>" 0] u
  have 2: "sk_state (snd (tcp_nip_disconnect (sk_user\<lparr>sk_state := TCP_LAST_ACK\<rparr>) 0)) = TCP_CLOSE"
    "Send_active_reset \<in>
      set (drop (length (calls (sk_user\<lparr>sk_state := TCP_LAST_ACK\<rparr>)))
             (calls (snd (tcp_nip_disconnect (sk_user\<lparr>sk_state := TCP_LAST_ACK\<rparr>) 0))))"
    by simp_all
  show ?thesis by (intro conjI) (fact 1 2)+
qed

section \<open>Receiving\<close>

text \<open>
  C5. A segment whose checksum does not verify against the pseudo-header (next-header
  type, source address, destination address, length) is freed and \<^verbatim>\<open>tcp_nip_rcv\<close>
  returns 0: no lookup is made, no reset is sent, nothing else happens.
\<close>

theorem rcv_bad_checksum_dropped:
  "\<not> nip_get_tcp_input_checksum env skb \<Longrightarrow> tcp_nip_rcv env skb = (0, [Kfree_skb])"
  by (simp add: tcp_nip_rcv_def Let_def)

theorem rcv_bad_checksum_dropped_witness:
  "\<not> nip_get_tcp_input_checksum rcv_env_none skb_badsum \<and>
   tcp_nip_rcv rcv_env_none skb_badsum = (0, [Kfree_skb])"
proof -
  have h: "\<not> nip_get_tcp_input_checksum rcv_env_none skb_badsum"
    by (simp add: nip_get_tcp_input_checksum_def rcv_env_none_def skb_badsum_def Let_def)
  from h rcv_bad_checksum_dropped [OF h] show ?thesis by (rule conjI)
qed

text \<open>
  C6. A segment that passes the checks of \<^verbatim>\<open>tcp_nip_rcv\<close> that come before the lookup
  (the packet is for this host, the checksum verifies, the data offset covers a TCP
  header) and for which the lookup finds no socket: the lookup is followed by a reset,
  built from the segment's acknowledgment number or from its sequence number and length,
  unless the segment carries RST, in which case no reset is sent; then the segment is
  freed and 0 is returned.
\<close>

theorem rcv_no_socket_reset:
  assumes "pkt_type skb = PACKET_HOST"
    and "nip_get_tcp_input_checksum env skb"
    and "\<not> th_doff skb < 5"
    and "ninet_lookup_skb env skb (push_bit 2 (ucast (th_doff skb)))
           (th_source skb) (th_dest skb) (skb_iif skb) = None"
  shows "tcp_nip_rcv env skb =
           (0, Lookup # tcp_nip_send_reset None skb @ [Kfree_skb]) \<and>
         (th_rst skb \<longrightarrow> tcp_nip_send_reset None skb = []) \<and>
         (\<not> th_rst skb \<longrightarrow>
            tcp_nip_send_reset None skb =
              [Actual_send_reset
                 (if th_ack skb then ntohl (th_ack_seq skb) else 0)
                 (if th_ack skb then 0
                  else ntohl (th_seq skb) + of_bool (th_syn skb) + of_bool (th_fin skb)
                       + len skb - push_bit 2 (ucast (th_doff skb)))
                 0 1])"
  using assms by (simp add: tcp_nip_rcv_def tcp_nip_send_reset_def Let_def)

lemma ntohl_1000: "ntohl 1000 = 0xe8030000"
  by (simp add: ntohl_def)

text \<open>An unmatched data segment draws a reset; the same segment with RST set draws none.\<close>

theorem rcv_no_socket_reset_witness:
  "tcp_nip_rcv rcv_env_none skb_data =
     (0, [Lookup, Actual_send_reset 0 0xe8030064 0 1, Kfree_skb]) \<and>
   tcp_nip_rcv rcv_env_none skb_rst = (0, [Lookup, Kfree_skb])"
proof -
  have d: "pkt_type skb_data = PACKET_HOST" "nip_get_tcp_input_checksum rcv_env_none skb_data"
    "\<not> th_doff skb_data < 5"
    "ninet_lookup_skb rcv_env_none skb_data (push_bit 2 (ucast (th_doff skb_data)))
           (th_source skb_data) (th_dest skb_data) (skb_iif skb_data) = None"
    by (simp_all add: nip_get_tcp_input_checksum_def rcv_env_none_def skb_data_def
        PACKET_HOST_def Let_def)
  have r: "pkt_type skb_rst = PACKET_HOST" "nip_get_tcp_input_checksum rcv_env_none skb_rst"
    "\<not> th_doff skb_rst < 5"
    "ninet_lookup_skb rcv_env_none skb_rst (push_bit 2 (ucast (th_doff skb_rst)))
           (th_source skb_rst) (th_dest skb_rst) (skb_iif skb_rst) = None"
    by (simp_all add: nip_get_tcp_input_checksum_def rcv_env_none_def skb_data_def skb_rst_def
        PACKET_HOST_def Let_def)
  have f: "\<not> th_rst skb_data" "\<not> th_ack skb_data" "th_seq skb_data = 1000"
    "\<not> th_syn skb_data" "\<not> th_fin skb_data" "len skb_data = 120" "th_doff skb_data = 5"
    "th_rst skb_rst"
    by (simp_all add: skb_data_def skb_rst_def)
  from rcv_no_socket_reset [OF d] f
  have 1: "tcp_nip_rcv rcv_env_none skb_data =
      (0, [Lookup, Actual_send_reset 0 0xe8030064 0 1, Kfree_skb])"
    by (simp add: ntohl_1000)
  from rcv_no_socket_reset [OF r] f
  have 2: "tcp_nip_rcv rcv_env_none skb_rst = (0, [Lookup, Kfree_skb])"
    by simp
  from 1 2 show ?thesis by (rule conjI)
qed

section \<open>The established table: insertion\<close>

text \<open>
  The entries a scan reads: those before the first entry that counts, and that entry.
\<close>

lemma not_unique_result:
  "not_unique env hash net saddr daddr ports dif chain st =
     ((\<exists>sk2 \<in> set chain. sk_hash (socks st sk2) = hash \<and>
          NINET_MATCH env (socks st sk2) net saddr daddr ports dif),
      st\<lparr>trace := trace st @ map Chain_read
          (takeWhile (\<lambda>sk2. \<not> (sk_hash (socks st sk2) = hash \<and>
                        NINET_MATCH env (socks st sk2) net saddr daddr ports dif)) chain @
           take 1 (dropWhile (\<lambda>sk2. \<not> (sk_hash (socks st sk2) = hash \<and>
                        NINET_MATCH env (socks st sk2) net saddr daddr ports dif)) chain))\<rparr>)"
proof (induction chain arbitrary: st)
  case Nil
  show ?case by simp
next
  case (Cons sk2 chain)
  have s: "socks (chain_read st sk2) = socks st"
    and t: "trace (chain_read st sk2) = trace st @ [Chain_read sk2]"
    by (simp_all add: chain_read_def)
  show ?case
    by (simp add: Let_def Cons.IH s t) (simp add: chain_read_def)
qed

text \<open>
  C8. \<^verbatim>\<open>__ninet_check_established\<close> takes the lock of the shard and then scans the
  chain of the bucket for an entry with the same hash that \<^verbatim>\<open>NINET_MATCH\<close> accepts for
  the socket's addresses, ports, device and namespace: every read of the scan comes after
  the lock is taken and before it is released. If there is such an entry, the lock is
  released and the call fails with \<^verbatim>\<open>-EADDRNOTAVAIL\<close> (the code's error for a tuple
  already in the table): no socket and no table has changed. Otherwise \<^verbatim>\<open>inet_num\<close>,
  \<^verbatim>\<open>inet_sport\<close> and the hash are stored in the socket and then the socket is put at the
  head of the chain, all after the scan and before the same lock is released, and the
  call returns 0.
\<close>

theorem check_established_insert:
  fixes env st sk lport
  defines "s \<equiv> socks st sk"
  defines "hash \<equiv> ninet_ehashfn env (sk_net s) (sk_nip_rcv_saddr s) lport
                     (sk_nip_daddr s) (inet_dport s)"
  defines "slot \<equiv> inet_ehash_bucket (hashinfo st) hash"
  defines "lock \<equiv> inet_ehash_lockp (hashinfo st) hash"
  defines "same \<equiv> (\<lambda>sk2. sk_hash (socks st sk2) = hash \<and>
                     NINET_MATCH env (socks st sk2) (sk_net s) (sk_nip_daddr s)
                       (sk_nip_rcv_saddr s)
                       (INET_COMBINED_PORTS env (inet_dport s) lport) (sk_bound_dev_if s))"
  defines "dup \<equiv> (\<exists>sk2 \<in> set (ehash (hashinfo st) slot). same sk2)"
  defines "scanned \<equiv> takeWhile (\<lambda>sk2. \<not> same sk2) (ehash (hashinfo st) slot) @
                       take 1 (dropWhile (\<lambda>sk2. \<not> same sk2) (ehash (hashinfo st) slot))"
  defines "r \<equiv> ninet_check_established env st sk lport"
  shows "(dup \<longrightarrow>
            fst r = - EADDRNOTAVAIL \<and>
            socks (snd r) = socks st \<and>
            hashinfo (snd r) = hashinfo st \<and>
            trace (snd r) = trace st @
              [Spin_lock lock] @ map Chain_read scanned @ [Spin_unlock lock]) \<and>
         (\<not> dup \<longrightarrow>
            fst r = 0 \<and>
            socks (snd r) = (socks st)(sk := s\<lparr>inet_num := lport, inet_sport := htons lport,
                                sk_hash := hash, sk_nulls_node := Some (Ehash_chain slot)\<rparr>) \<and>
            hashinfo (snd r) = (hashinfo st)\<lparr>ehash := (ehash (hashinfo st))
                                  (slot := sk # ehash (hashinfo st) slot)\<rparr> \<and>
            scanned = ehash (hashinfo st) slot \<and>
            trace (snd r) = trace st @
              [Spin_lock lock] @ map Chain_read scanned @
              [Store_inet_num sk lport, Store_inet_sport sk (htons lport),
               Store_sk_hash sk hash, Nulls_add_node sk slot, Spin_unlock lock,
               Prot_inuse_add 1])"
proof -
  let ?st = "spin_lock st lock"
  have nu: "not_unique env hash (sk_net s) (sk_nip_daddr s) (sk_nip_rcv_saddr s)
              (INET_COMBINED_PORTS env (inet_dport s) lport) (sk_bound_dev_if s)
              (ehash (hashinfo st) slot) ?st =
            (dup, ?st\<lparr>trace := trace ?st @ map Chain_read scanned\<rparr>)"
    unfolding not_unique_result
    by (simp add: dup_def scanned_def same_def spin_lock_def)
  have r: "r = (if dup
       then (- EADDRNOTAVAIL,
             spin_unlock (?st\<lparr>trace := trace ?st @ map Chain_read scanned\<rparr>) lock)
       else (0, sock_prot_inuse_add (spin_unlock (sk_nulls_add_node_rcu
              (store_sk_hash (store_inet_sport (store_inet_num
                 (?st\<lparr>trace := trace ?st @ map Chain_read scanned\<rparr>) sk lport)
                 sk (htons lport)) sk hash)
              sk slot) lock) 1))"
    unfolding r_def ninet_check_established_def Let_def
    using nu by (simp add: s_def hash_def slot_def lock_def spin_lock_def)
  have all: "\<not> dup \<Longrightarrow> scanned = ehash (hashinfo st) slot"
  proof -
    assume "\<not> dup"
    hence n: "\<forall>sk2 \<in> set (ehash (hashinfo st) slot). \<not> same sk2"
      by (simp add: dup_def)
    have tw: "takeWhile (\<lambda>sk2. \<not> same sk2) (ehash (hashinfo st) slot) =
                ehash (hashinfo st) slot"
      using n by (simp add: takeWhile_eq_all_conv)
    have dw: "dropWhile (\<lambda>sk2. \<not> same sk2) (ehash (hashinfo st) slot) = []"
      using n by (simp add: dropWhile_eq_Nil_conv)
    show ?thesis unfolding scanned_def tw dw by simp
  qed
  show ?thesis
    unfolding r using all
    by (simp add: spin_lock_def spin_unlock_def sock_prot_inuse_add_def
        sk_nulls_add_node_rcu_def store_inet_num_def store_inet_sport_def
        store_sk_hash_def s_def)
qed

text \<open>
  A socket at address 2 asks for local port 80, which the linked socket at address 3
  already holds towards the same peer, and is refused; asking for port 81 it is linked in
  front of it.
\<close>

theorem check_established_insert_witness:
  "fst (ninet_check_established henv st_tables 2 80) = - EADDRNOTAVAIL \<and>
   socks (snd (ninet_check_established henv st_tables 2 80)) = socks st_tables \<and>
   hashinfo (snd (ninet_check_established henv st_tables 2 80)) = hashinfo st_tables \<and>
   trace (snd (ninet_check_established henv st_tables 2 80)) =
     [Spin_lock (Ehash_lock 5), Chain_read 3, Spin_unlock (Ehash_lock 5)] \<and>
   fst (ninet_check_established henv st_tables 2 81) = 0 \<and>
   inet_num (socks (snd (ninet_check_established henv st_tables 2 81)) 2) = 81 \<and>
   ehash (hashinfo (snd (ninet_check_established henv st_tables 2 81))) 5 = [2, 3] \<and>
   trace (snd (ninet_check_established henv st_tables 2 81)) =
     [Spin_lock (Ehash_lock 5), Chain_read 3, Store_inet_num 2 81,
      Store_inet_sport 2 (htons 81), Store_sk_hash 2 5, Nulls_add_node 2 5,
      Spin_unlock (Ehash_lock 5), Prot_inuse_add 1]"
proof -
  have h: "ninet_ehashfn henv net laddr lport faddr fport = 5" for net laddr lport faddr fport
    by (simp add: ninet_ehashfn_def henv_def Let_def)
  have b: "inet_ehash_bucket (hashinfo st_tables) 5 = 5"
    "inet_ehash_lockp (hashinfo st_tables) 5 = Ehash_lock 5"
    by (simp_all add: inet_ehash_bucket_def inet_ehash_lockp_def st_tables_def)
  have c: "ehash (hashinfo st_tables) 5 = [3]" "socks st_tables 3 = sk_linked"
    "socks st_tables 2 = sk_fresh" "trace st_tables = []"
    by (simp_all add: st_tables_def)
  have dup: "NINET_MATCH henv sk_linked (sk_net sk_fresh) (sk_nip_daddr sk_fresh)
      (sk_nip_rcv_saddr sk_fresh) (INET_COMBINED_PORTS henv (inet_dport sk_fresh) 80)
      (sk_bound_dev_if sk_fresh)"
    "sk_hash sk_linked = 5"
    by (simp_all add: henv_def sk_linked_def sk_fresh_def sk_user_def)
  have nodup: "\<not> NINET_MATCH henv sk_linked (sk_net sk_fresh) (sk_nip_daddr sk_fresh)
      (sk_nip_rcv_saddr sk_fresh) (INET_COMBINED_PORTS henv (inet_dport sk_fresh) 81)
      (sk_bound_dev_if sk_fresh)"
    by (simp add: henv_def sk_linked_def sk_fresh_def sk_user_def)
  from check_established_insert [where env=henv and st=st_tables and sk=2 and lport=80] dup
  have 1: "fst (ninet_check_established henv st_tables 2 80) = - EADDRNOTAVAIL \<and>
     socks (snd (ninet_check_established henv st_tables 2 80)) = socks st_tables \<and>
     hashinfo (snd (ninet_check_established henv st_tables 2 80)) = hashinfo st_tables \<and>
     trace (snd (ninet_check_established henv st_tables 2 80)) =
       [Spin_lock (Ehash_lock 5), Chain_read 3, Spin_unlock (Ehash_lock 5)]"
    by (simp add: h b c)
  from check_established_insert [where env=henv and st=st_tables and sk=2 and lport=81] nodup
  have 2: "fst (ninet_check_established henv st_tables 2 81) = 0 \<and>
     inet_num (socks (snd (ninet_check_established henv st_tables 2 81)) 2) = 81 \<and>
     ehash (hashinfo (snd (ninet_check_established henv st_tables 2 81))) 5 = [2, 3] \<and>
     trace (snd (ninet_check_established henv st_tables 2 81)) =
       [Spin_lock (Ehash_lock 5), Chain_read 3, Store_inet_num 2 81,
        Store_inet_sport 2 (htons 81), Store_sk_hash 2 5, Nulls_add_node 2 5,
        Spin_unlock (Ehash_lock 5), Prot_inuse_add 1]"
    by (simp add: h b c)
  from 1 2 show ?thesis by simp
qed

section \<open>The hash tables: removal\<close>

lemma spin_lock_socks [simp]: "socks (spin_lock st l) = socks st"
  and spin_unlock_socks [simp]: "socks (spin_unlock st l) = socks st"
  and inuse_socks [simp]: "socks (sock_prot_inuse_add st v) = socks st"
  by (simp_all add: spin_lock_def spin_unlock_def sock_prot_inuse_add_def)

lemma del_node_unhashed:
  "sk_unhashed (socks (sk_nulls_del_node_init_rcu st sk) sk)"
  by (simp add: sk_nulls_del_node_init_rcu_def sk_unhashed_def
      split: option.splits chain_id.splits)

lemma unhash_unhashed: "sk_unhashed (socks (ninet_unhash env st sk) sk)"
  by (simp add: ninet_unhash_def Let_def del_node_unhashed)

text \<open>
  C9. \<^verbatim>\<open>ninet_unhash\<close> on a socket that is already unhashed returns without touching
  anything: the sockets, both listening tables, the established table and the locks are
  as before. Since \<^verbatim>\<open>ninet_unhash\<close> leaves the socket unhashed, calling it twice gives
  the state that calling it once gives.
\<close>

theorem unhash_idempotent:
  "(sk_unhashed (socks st sk) \<longrightarrow> ninet_unhash env st sk = st) \<and>
   ninet_unhash env (ninet_unhash env st sk) sk = ninet_unhash env st sk"
proof
  show "sk_unhashed (socks st sk) \<longrightarrow> ninet_unhash env st sk = st"
    by (simp add: ninet_unhash_def)
next
  have "sk_unhashed (socks (ninet_unhash env st sk) sk)"
    by (rule unhash_unhashed)
  then show "ninet_unhash env (ninet_unhash env st sk) sk = ninet_unhash env st sk"
    by (simp add: ninet_unhash_def [of env "ninet_unhash env st sk"])
qed

text \<open>
  The unhashed socket at address 2 is left alone; the linked socket at address 3 is taken
  out of its chain by the first call and the second call changes nothing more.
\<close>

theorem unhash_idempotent_witness:
  "sk_unhashed (socks st_tables 2) \<and>
   ninet_unhash henv st_tables 2 = st_tables \<and>
   \<not> sk_unhashed (socks st_tables 3) \<and>
   ehash (hashinfo (ninet_unhash henv st_tables 3)) 5 = [] \<and>
   ninet_unhash henv (ninet_unhash henv st_tables 3) 3 = ninet_unhash henv st_tables 3"
proof -
  have u: "sk_unhashed (socks st_tables 2)" "\<not> sk_unhashed (socks st_tables 3)"
    by (simp_all add: sk_unhashed_def table_defs sk_user_def)
  have e: "ehash (hashinfo (ninet_unhash henv st_tables 3)) 5 = []"
    by (simp add: ninet_unhash_def sk_unhashed_def table_defs sk_user_def Let_def
        tcp_state_codes inet_ehash_lockp_def spin_lock_def spin_unlock_def
        sock_prot_inuse_add_def sk_nulls_del_node_init_rcu_def)
  note t1 = unhash_idempotent [where env=henv and st=st_tables and sk=2]
  note t2 = unhash_idempotent [where env=henv and st=st_tables and sk=3]
  from t1 u have a: "ninet_unhash henv st_tables 2 = st_tables" by simp
  from t2 have b: "ninet_unhash henv (ninet_unhash henv st_tables 3) 3 =
      ninet_unhash henv st_tables 3" by (rule conjunct2)
  show ?thesis by (intro conjI) (fact u a e b)+
qed

end
